theory Spec2Isabelle
  imports Main "HOL-Library.Word"
begin

unbundle bit_operations_syntax

section \<open>Data model\<close>

text \<open>
  The package \<^verbatim>\<open>tiled\<close> decodes a Tiled map (TMX) into Go structs. Each struct
  is a record with the fields of the source, in the source's order. Machine types:
  \<^item> \<^verbatim>\<open>uint32\<close>, \<^verbatim>\<open>GlobalID\<close>, \<^verbatim>\<open>TileID\<close>, \<^verbatim>\<open>ObjectID\<close> are 32-bit words
    (unsigned order, wrapping arithmetic);
  \<^item> \<^verbatim>\<open>int\<close> is a 64-bit word read as two's complement (\<open>sint\<close>), as on the
    64-bit targets of Go;
  \<^item> \<^verbatim>\<open>float32\<close> is kept as its IEEE-754 bit pattern: the code only copies such
    values and compares them with zero;
  \<^item> \<^verbatim>\<open>string\<close> and \<^verbatim>\<open>[]byte\<close> are byte sequences (\<open>string\<close>: the characters
    of HOL are bytes);
  \<^item> a pointer that may be \<^verbatim>\<open>nil\<close> is an \<open>option\<close>; a slice is a list (the
    \<^verbatim>\<open>nil\<close> slice is the empty list). The records reached through a pointer are
    never written after they are built, so a pointer is modelled by the value it
    points to.
\<close>

type_synonym uint32 = "32 word"
type_synonym goint = "64 word"
type_synonym float32 = "32 word"
type_synonym GlobalID = "32 word"
type_synonym TileID = "32 word"
type_synonym ObjectID = "32 word"

definition float32_isZero :: "float32 \<Rightarrow> bool" where
  \<comment> \<open>\<^verbatim>\<open>f == 0\<close> on a float32: true of +0 and of -0, false of everything else (NaN too)\<close>
  "float32_isZero f = (f = 0 \<or> f = 0x80000000)"

datatype PropertyType = PString | PInt | PFloat | PBool | PColor | PFile | PObj | PClass

text \<open>\<^verbatim>\<open>Property\<close>: Name, Type, CustomType, Value, InnerValue, Properties (nested).\<close>

datatype Property =
  Property string PropertyType string string string "Property list option"

type_synonym Properties = "Property list"

record Data =
  Encoding :: string
  Compression :: string
  RawBytes :: string

datatype ImageFormat = Png | Gif | Jpg | Bmp

record Image =
  Format :: ImageFormat
  Source :: string
  TransparentColor :: string
  Width :: goint
  Height :: goint
  Data :: "Data option"

record Poly =
  RawPoints :: string

datatype HAlignment = HLeft | HCenter | HRight | HJustify
datatype VAlignment = VTop | VCenter | VBottom

record Text =
  FontFamily :: string
  PixelSize :: goint
  Wrap :: bool
  Bold :: bool
  Italic :: bool
  Underline :: bool
  Strikeout :: bool
  Kerning :: bool
  HAlign :: HAlignment
  VAlign :: VAlignment
  Value :: string

record Object =
  ObjectID :: ObjectID
  Name :: string
  Type :: string
  X :: float32
  Y :: float32
  Width :: float32
  Height :: float32
  Rotation :: float32
  Visible :: bool
  Template :: string
  GlobalID :: GlobalID
  Properties :: "Properties option"
  Image :: "Image option"
  Polygon :: "Poly option"
  Polyline :: "Poly option"
  Text :: "Text option"
  Point :: "unit option"
  Ellipse :: "unit option"

datatype DrawOrder = TopDown | Index

record ObjectLayer =
  ID :: string
  Name :: string
  Class :: string
  Color :: string
  X :: float32
  Y :: float32
  Width :: goint
  Height :: goint
  Opacity :: float32
  Visible :: bool
  OffsetX :: goint
  OffsetY :: goint
  ParallaxX :: float32
  ParallaxY :: float32
  DrawOrder :: DrawOrder
  Properties :: "Properties option"
  Objects :: "Object list option"

record Frame =
  TileID :: TileID
  DurationMsec :: goint

record TerrainType =
  TopLeft :: TileID
  TopRight :: TileID
  BottomLeft :: TileID
  BottomRight :: TileID

record Tile =
  TileID :: TileID
  X :: goint
  Y :: goint
  Width :: goint
  Height :: goint
  Probability :: float32
  Type :: string
  RawTerrainType :: string
  Properties :: "Properties option"
  Image :: "Image option"
  Animation :: "Frame list option"
  ObjectLayer :: "ObjectLayer option"
  TerrainType :: "TerrainType option"

record Terrain =
  Name :: string
  TileID :: TileID
  Properties :: "Properties option"

record WangColor =
  Name :: string
  Class :: string
  Color :: string
  TileID :: TileID
  Properties :: "Properties option"

record WangTile =
  Name :: string
  TileID :: TileID
  WangID :: string

record WangSet =
  Name :: string
  Class :: string
  TileID :: TileID
  Properties :: "Properties option"
  WangColors :: "WangColor list option"
  WangTiles :: "WangTile list option"

record Transformations =
  HFlip :: bool
  VFlip :: bool
  Rotate :: bool
  PreferUntransformed :: bool

record tileOffset =
  X :: goint
  Y :: goint

datatype ObjectAlignment =
  Unspecified | AlignTopLeft | AlignTop | AlignTopRight | AlignLeft | AlignCenter
  | AlignRight | AlignBottomLeft | AlignBottom | AlignBottomRight

record Tileset =
  FirstGlobalID :: GlobalID
  Source :: string
  Name :: string
  Class :: string
  TileWidth :: goint
  TileHeight :: goint
  Spacing :: goint
  Margin :: goint
  TileCount :: uint32
  Columns :: goint
  ObjectAlignment :: ObjectAlignment
  Properties :: "Properties option"
  TileOffset :: "tileOffset option"
  Image :: "Image option"
  TerrainTypes :: "Terrain list option"
  WangSets :: "WangSet list option"
  Tiles :: "Tile list option"
  Transformations :: "Transformations option"

record Template =
  TileSet :: "Tileset option"
  Object :: "Object option"

text \<open>
  \<^verbatim>\<open>TileDef\<close>: the field \<^verbatim>\<open>Nil\<close> of the source is \<open>Nil'\<close> here (\<open>Nil\<close> is the empty
  list of HOL).
\<close>

record TileDef =
  Nil' :: bool
  ID :: TileID
  GlobalID :: GlobalID
  TileSet :: "Tileset option"
  Tile :: "Tile option"
  HorizontallyFlipped :: bool
  VerticallyFlipped :: bool
  DiagonallyFlipped :: bool

text \<open>
  \<^verbatim>\<open>TileGlobalRef\<close> is a struct with the single field \<^verbatim>\<open>GlobalID\<close>; the slice
  \<^verbatim>\<open>[]*TileGlobalRef\<close> is the list of these identifiers.
\<close>

type_synonym TileGlobalRef = GlobalID

record TileLayer =
  ID :: string
  Name :: string
  Class :: string
  X :: float32
  Y :: float32
  Width :: goint
  Height :: goint
  Opacity :: float32
  Visible :: bool
  TintColor :: string
  OffsetX :: goint
  OffsetY :: goint
  ParallaxX :: goint
  ParallaxY :: goint
  Properties :: "Properties option"
  RawData :: "Data option"
  TileGlobalRefs :: "TileGlobalRef list"
  TileDefs :: "TileDef list"

subsection \<open>Errors and panics\<close>

text \<open>
  The sentinel errors of \<^verbatim>\<open>errors.go\<close>. An error value is a sentinel wrapped by
  \<^verbatim>\<open>fmt.Errorf\<close> with its context (\<open>Errorf\<close>: the format \<^verbatim>\<open>"%w: ..."\<close> with the
  values printed after it), a sentinel wrapping another error (\<open>Errorf2\<close>: the
  format \<^verbatim>\<open>"%w: %w"\<close>), a message wrapping another error (\<open>ErrorfMsg\<close>), or an
  error of a library the package calls.
\<close>

datatype sentinel =
  ErrUnsupportedEncoding | ErrUnsupportedCompression | ErrNoSuitableTileset
  | ErrPropertyWrongType | ErrPropertyFailedConversion | ErrUnknownOrientation
  | ErrUnknownRenderOrder | ErrUnknownObjectAlignment | ErrUnknownHAlignment
  | ErrUnknownVAlignment | ErrUnknownImageFormat | ErrUnknownDrawOrder
  | ErrUnknownPropertyType | ErrDecodingTilemap | ErrDecodingTileset | ErrDecodingTile
  | ErrDecodingTileLayer | ErrDecodingTileLayerData | ErrDecodingObjectLayer
  | ErrDecodingTemplate | ErrTileDefOutOfBounds

datatype errContext =
  CtxString string
  | CtxIndex goint
  | CtxRowCol goint goint
  | CtxGlobalID GlobalID

datatype strconvErr = ErrSyntax | ErrRange

datatype error =
  Errorf sentinel errContext
  | Errorf2 sentinel error
  | ErrorfMsg string error
  | NumError string string strconvErr
  | ErrUnexpectedEOF
  | LibError string

fun errors_Is :: "error \<Rightarrow> sentinel \<Rightarrow> bool" where
  "errors_Is (Errorf s c) target = (s = target)"
| "errors_Is (Errorf2 s e) target = (s = target \<or> errors_Is e target)"
| "errors_Is (ErrorfMsg m e) target = errors_Is e target"
| "errors_Is (NumError f n e) target = False"
| "errors_Is ErrUnexpectedEOF target = False"
| "errors_Is (LibError m) target = False"

text \<open>
  A run-time panic is not an error value: a function that can panic returns an
  \<open>outcome\<close>.
\<close>

datatype panic = NilPointerDereference | IndexOutOfRange goint nat

datatype 'a outcome = Returns 'a | Panics panic

section \<open>Global identifiers\<close>

definition TileFlippedHorizontally :: uint32 where
  "TileFlippedHorizontally = 0x80000000"

definition TileFlippedVertically :: uint32 where
  "TileFlippedVertically = 0x40000000"

definition TileFlippedDiagonally :: uint32 where
  "TileFlippedDiagonally = 0x20000000"

definition TileFlipped :: uint32 where
  "TileFlipped = TileFlippedHorizontally OR TileFlippedVertically OR TileFlippedDiagonally"

definition IsFlippedHorizontally :: "GlobalID \<Rightarrow> bool" where
  "IsFlippedHorizontally g = (g AND TileFlippedHorizontally \<noteq> 0)"

definition IsFlippedVertically :: "GlobalID \<Rightarrow> bool" where
  "IsFlippedVertically g = (g AND TileFlippedVertically \<noteq> 0)"

definition IsFlippedDiagonally :: "GlobalID \<Rightarrow> bool" where
  "IsFlippedDiagonally g = (g AND TileFlippedDiagonally \<noteq> 0)"

definition BareID :: "GlobalID \<Rightarrow> uint32" where
  \<comment> \<open>\<^verbatim>\<open>g &^ TileFlipped\<close>: and-not\<close>
  "BareID g = g AND NOT TileFlipped"

definition GlobalID_TileID :: "GlobalID \<Rightarrow> Tileset \<Rightarrow> TileID" where
  "GlobalID_TileID g t = BareID g - Tileset.FirstGlobalID t"

section \<open>Tileset resolution and tile definitions (map.go)\<close>

text \<open>
  The inner loop of \<^verbatim>\<open>decodeTileDefs\<close> over the tilesets: \<open>ts\<close> is the candidate
  found so far (\<^verbatim>\<open>nil\<close> at the start); the scan stops at the first tileset whose
  \<^verbatim>\<open>FirstGlobalID\<close> exceeds the bare identifier.
\<close>

fun scanTilesets :: "uint32 \<Rightarrow> Tileset list \<Rightarrow> Tileset option \<Rightarrow> Tileset option" where
  "scanTilesets bid [] ts = ts"
| "scanTilesets bid (t # rest) ts =
     (if bid < Tileset.FirstGlobalID t then ts else scanTilesets bid rest (Some t))"

text \<open>
  The scan followed by the check \<^verbatim>\<open>if ts == nil\<close>, which returns
  \<^verbatim>\<open>ErrNoSuitableTileset\<close> with the global identifier of the reference.
\<close>

definition resolveTileset :: "GlobalID \<Rightarrow> Tileset list \<Rightarrow> error + Tileset" where
  "resolveTileset gid tss =
     (case scanTilesets (BareID gid) tss None of
        None \<Rightarrow> Inl (Errorf ErrNoSuitableTileset (CtxGlobalID gid))
      | Some ts \<Rightarrow> Inr ts)"

definition Tileset_HasImage :: "Tileset \<Rightarrow> bool" where
  "Tileset_HasImage t = (Tileset.Image t \<noteq> None)"

definition Tileset_HasTiles :: "Tileset \<Rightarrow> bool" where
  "Tileset_HasTiles t = (Tileset.Tiles t \<noteq> None)"

definition Tile_HasImage :: "Tile \<Rightarrow> bool" where
  "Tile_HasImage t = (Tile.Image t \<noteq> None)"

fun Tiles_WithID :: "Tile list \<Rightarrow> TileID \<Rightarrow> Tile option" where
  "Tiles_WithID [] tid = None"
| "Tiles_WithID (t # rest) tid = (if Tile.TileID t = tid then Some t else Tiles_WithID rest tid)"

text \<open>\<^verbatim>\<open>&TileDef{Nil: true}\<close>: every other field has the zero value of its type.\<close>

definition nilTileDef :: TileDef where
  "nilTileDef =
     \<lparr>Nil' = True, ID = 0, GlobalID = 0, TileSet = None, Tile = None,
      HorizontallyFlipped = False, VerticallyFlipped = False, DiagonallyFlipped = False\<rparr>"

text \<open>
  The tile definition built for a reference that resolved to the tileset \<open>ts\<close>. The
  tile is looked up only if the tileset has tiles (\<^verbatim>\<open>ts.Tiles != nil\<close>), so the
  pointer is dereferenced where it is not \<^verbatim>\<open>nil\<close>.
\<close>

definition newTileDef :: "GlobalID \<Rightarrow> Tileset \<Rightarrow> TileDef" where
  "newTileDef gid ts =
     (let tid = GlobalID_TileID gid ts;
          tile = (if Tileset_HasTiles ts then Tiles_WithID (the (Tileset.Tiles ts)) tid
                  else None)
      in \<lparr>Nil' = False, ID = tid, GlobalID = gid, TileSet = Some ts, Tile = tile,
          HorizontallyFlipped = IsFlippedHorizontally gid,
          VerticallyFlipped = IsFlippedVertically gid,
          DiagonallyFlipped = IsFlippedDiagonally gid\<rparr>)"

text \<open>
  The loop of \<^verbatim>\<open>decodeTileDefs\<close> over the references of the layer; \<open>defs\<close> is
  \<^verbatim>\<open>l.TileDefs\<close>, appended to at every step. At an error the loop returns with the
  definitions appended so far.
\<close>

fun decodeTileDefs_loop ::
  "TileGlobalRef list \<Rightarrow> Tileset list \<Rightarrow> TileDef list \<Rightarrow> TileDef list \<times> error option" where
  "decodeTileDefs_loop [] tss defs = (defs, None)"
| "decodeTileDefs_loop (tgr # rest) tss defs =
     (if BareID tgr = 0 then decodeTileDefs_loop rest tss (defs @ [nilTileDef])
      else case resolveTileset tgr tss of
             Inl err \<Rightarrow> (defs, Some err)
           | Inr ts \<Rightarrow> decodeTileDefs_loop rest tss (defs @ [newTileDef tgr ts]))"

text \<open>
  \<^verbatim>\<open>decodeTileDefs(l, tss)\<close> writes the layer through its pointer: the result is the
  layer after the call and the error returned (\<open>None\<close> for \<^verbatim>\<open>nil\<close>). Only the
  successful return reaches \<^verbatim>\<open>l.TileGlobalRefs = nil\<close>. The callers have
  dereferenced \<^verbatim>\<open>tss\<close> before (\<^verbatim>\<open>sort.Sort\<close> in \<^verbatim>\<open>Map.UnmarshalXML\<close>), so it is a
  list here.
\<close>

definition decodeTileDefs :: "TileLayer \<Rightarrow> Tileset list \<Rightarrow> TileLayer \<times> error option" where
  "decodeTileDefs l tss =
     (case decodeTileDefs_loop (TileGlobalRefs l) tss (TileDefs l) of
        (defs, Some err) \<Rightarrow> (l\<lparr>TileDefs := defs\<rparr>, Some err)
      | (defs, None) \<Rightarrow> (l\<lparr>TileGlobalRefs := [], TileDefs := defs\<rparr>, None))"

section \<open>Access to the tile definitions of a layer\<close>

text \<open>
  \<^verbatim>\<open>GetTileDefAtIndex\<close>: the index is compared, as a signed integer, with the
  product \<^verbatim>\<open>l.Width*l.Height\<close> (computed in \<^verbatim>\<open>int\<close>, so it wraps); the slice access
  \<^verbatim>\<open>l.TileDefs[index]\<close> panics when the index is not below the length of the slice.
\<close>

definition GetTileDefAtIndex :: "TileLayer \<Rightarrow> goint \<Rightarrow> (error + TileDef) outcome" where
  "GetTileDefAtIndex l index =
     (if sint index < 0 \<or> sint (TileLayer.Width l * TileLayer.Height l) \<le> sint index
      then Returns (Inl (Errorf ErrTileDefOutOfBounds (CtxIndex index)))
      else if nat (sint index) < length (TileDefs l)
      then Returns (Inr (TileDefs l ! nat (sint index)))
      else Panics (IndexOutOfRange index (length (TileDefs l))))"

definition GetTileDefAtPosition :: "TileLayer \<Rightarrow> goint \<Rightarrow> goint \<Rightarrow> (error + TileDef) outcome" where
  "GetTileDefAtPosition l row col =
     (case GetTileDefAtIndex l (row * TileLayer.Width l + col) of
        Panics p \<Rightarrow> Panics p
      | Returns (Inl err) \<Rightarrow> Returns (Inl (Errorf ErrTileDefOutOfBounds (CtxRowCol row col)))
      | Returns (Inr td) \<Rightarrow> Returns (Inr td))"

section \<open>Decoding the payload of a layer\<close>

subsection \<open>The library functions of the text encoding\<close>

text \<open>
  \<^verbatim>\<open>strings.Split(s, ",")\<close>: the pieces between the separators; the empty string
  gives one empty piece.
\<close>

fun strings_Split :: "string \<Rightarrow> char \<Rightarrow> string list" where
  "strings_Split [] sep = [[]]"
| "strings_Split (c # cs) sep =
     (if c = sep then [] # strings_Split cs sep
      else case strings_Split cs sep of
             [] \<Rightarrow> [[c]]
           | w # ws \<Rightarrow> (c # w) # ws)"

text \<open>
  \<^verbatim>\<open>strings.TrimSpace\<close> (and \<^verbatim>\<open>bytes.TrimSpace\<close>) removes the leading and the
  trailing white space of Unicode. In UTF-8 these are the byte sequences of
  \<open>spaceRunes\<close>: the six of ASCII, U+0085, U+00A0, U+1680, U+2000 to U+200A,
  U+2028, U+2029, U+202F, U+205F and U+3000.
\<close>

definition spaceRunes :: "string list" where
  "spaceRunes =
     [[CHR 0x09], [CHR 0x0A], [CHR 0x0B], [CHR 0x0C], [CHR 0x0D], [CHR 0x20],
      [CHR 0xC2, CHR 0x85], [CHR 0xC2, CHR 0xA0], [CHR 0xE1, CHR 0x9A, CHR 0x80],
      [CHR 0xE2, CHR 0x80, CHR 0x80], [CHR 0xE2, CHR 0x80, CHR 0x81],
      [CHR 0xE2, CHR 0x80, CHR 0x82], [CHR 0xE2, CHR 0x80, CHR 0x83],
      [CHR 0xE2, CHR 0x80, CHR 0x84], [CHR 0xE2, CHR 0x80, CHR 0x85],
      [CHR 0xE2, CHR 0x80, CHR 0x86], [CHR 0xE2, CHR 0x80, CHR 0x87],
      [CHR 0xE2, CHR 0x80, CHR 0x88], [CHR 0xE2, CHR 0x80, CHR 0x89],
      [CHR 0xE2, CHR 0x80, CHR 0x8A], [CHR 0xE2, CHR 0x80, CHR 0xA8],
      [CHR 0xE2, CHR 0x80, CHR 0xA9], [CHR 0xE2, CHR 0x80, CHR 0xAF],
      [CHR 0xE2, CHR 0x81, CHR 0x9F], [CHR 0xE3, CHR 0x80, CHR 0x80]]"

definition startsWith :: "string \<Rightarrow> string \<Rightarrow> bool" where
  "startsWith s p = (p \<noteq> [] \<and> take (length p) s = p)"

function trimPrefixes :: "string list \<Rightarrow> string \<Rightarrow> string" where
  "trimPrefixes ps s =
     (case find (startsWith s) ps of
        None \<Rightarrow> s
      | Some p \<Rightarrow> trimPrefixes ps (drop (length p) s))"
  by pat_completeness auto
termination
proof (relation "measure (\<lambda>(ps, s). length s)")
  show "wf (measure (\<lambda>(ps, s). length s))" by simp
next
  fix ps :: "string list" and s p :: string
  assume "find (startsWith s) ps = Some p"
  then have "startsWith s p" by (auto simp: find_Some_iff)
  then have p: "p \<noteq> []" and t: "take (length p) s = p" by (simp_all add: startsWith_def)
  from p have "0 < length p" by simp
  moreover have "length (take (length p) s) = length p"
    by (simp only: t)
  then have "length p \<le> length s"
    by (simp add: min_def split: if_splits)
  ultimately have "length s - length p < length s"
    by arith
  then show "((ps, drop (length p) s), (ps, s)) \<in> measure (\<lambda>(ps, s). length s)"
    by simp
qed

definition strings_TrimSpace :: "string \<Rightarrow> string" where
  "strings_TrimSpace s =
     rev (trimPrefixes (map rev spaceRunes) (rev (trimPrefixes spaceRunes s)))"

text \<open>
  \<^verbatim>\<open>strconv.ParseUint(s, 10, 32)\<close>, with the base and the size of its one call.
  The value is accumulated in a \<^verbatim>\<open>uint64\<close>; \<open>cutoff\<close> is the least value whose
  product with ten overflows, \<open>maxVal\<close> the greatest value of 32 bits. The empty
  string and a byte that is not a decimal digit are a syntax error, a value above
  \<open>maxVal\<close> a range error; the error names the function and the string parsed.
\<close>

definition isDigit :: "char \<Rightarrow> bool" where
  "isDigit c = (48 \<le> (of_char c :: nat) \<and> (of_char c :: nat) \<le> 57)"

definition cutoff :: "64 word" where
  "cutoff = 0xFFFFFFFFFFFFFFFF div 10 + 1"

definition maxVal :: "64 word" where
  "maxVal = 0xFFFFFFFF"

fun parseUint_loop :: "string \<Rightarrow> string \<Rightarrow> 64 word \<Rightarrow> error + 64 word" where
  "parseUint_loop s0 [] n = Inr n"
| "parseUint_loop s0 (c # cs) n =
     (if \<not> isDigit c then Inl (NumError ''ParseUint'' s0 ErrSyntax)
      else if cutoff \<le> n then Inl (NumError ''ParseUint'' s0 ErrRange)
      else let n10 = n * 10;
               n1 = n10 + of_nat (of_char c - 48)
           in if n1 < n10 \<or> maxVal < n1 then Inl (NumError ''ParseUint'' s0 ErrRange)
              else parseUint_loop s0 cs n1)"

definition strconv_ParseUint :: "string \<Rightarrow> error + 64 word" where
  "strconv_ParseUint s =
     (if s = [] then Inl (NumError ''ParseUint'' s ErrSyntax) else parseUint_loop s s 0)"

text \<open>
  For reference, not code of the package: the number a string of decimal digits
  denotes. It is what \<open>strconv_ParseUint\<close> is compared with below.
\<close>

definition decimalValue :: "string \<Rightarrow> nat" where
  "decimalValue s = foldl (\<lambda>n c. n * 10 + (of_char c - 48)) 0 s"

text \<open>
  The loop of the \<^verbatim>\<open>csv\<close> case: every piece is trimmed and parsed, and its value
  (converted to \<^verbatim>\<open>uint32\<close>) appended to \<^verbatim>\<open>l.TileGlobalRefs\<close>, here \<open>refs\<close>; the
  first piece that does not parse returns its error.
\<close>

fun decodeCSV ::
  "string list \<Rightarrow> TileGlobalRef list \<Rightarrow> TileGlobalRef list \<times> error option" where
  "decodeCSV [] refs = (refs, None)"
| "decodeCSV (s # ss) refs =
     (case strconv_ParseUint (strings_TrimSpace s) of
        Inl err \<Rightarrow> (refs, Some err)
      | Inr nextInt \<Rightarrow> decodeCSV ss (refs @ [ucast nextInt]))"

subsection \<open>The binary encoding\<close>

text \<open>
  The readers of the \<^verbatim>\<open>base64\<close> case come from libraries (\<^verbatim>\<open>encoding/base64\<close>,
  \<^verbatim>\<open>zlib\<close>, \<^verbatim>\<open>gzip\<close>, \<^verbatim>\<open>zstd\<close>) and are parameters of the model. A reader is
  the bytes it delivers and how it ends: \<open>None\<close> for \<^verbatim>\<open>io.EOF\<close>, or its error.
\<close>

type_synonym reader = "string \<times> error option"

record codecs =
  base64_NewDecoder :: "string \<Rightarrow> reader"
  zlib_NewReader :: "reader \<Rightarrow> error + reader"
  gzip_NewReader :: "reader \<Rightarrow> error + reader"
  zstd_NewReader :: "reader \<Rightarrow> error + reader"

definition littleEndian_Uint32 :: "char \<Rightarrow> char \<Rightarrow> char \<Rightarrow> char \<Rightarrow> uint32" where
  "littleEndian_Uint32 b0 b1 b2 b3 =
     of_char b0 OR push_bit 8 (of_char b1) OR push_bit 16 (of_char b2)
       OR push_bit 24 (of_char b3)"

text \<open>
  The loop over \<^verbatim>\<open>binary.Read\<close>: four bytes give a reference; when no byte is
  left, \<^verbatim>\<open>io.EOF\<close> ends the loop and any other error of the reader is returned; one
  to three bytes left are \<^verbatim>\<open>io.ErrUnexpectedEOF\<close> (or the error of the reader).
\<close>

fun readUint32s ::
  "string \<Rightarrow> error option \<Rightarrow> TileGlobalRef list \<Rightarrow> TileGlobalRef list \<times> error option" where
  "readUint32s (b0 # b1 # b2 # b3 # rest) fin refs =
     readUint32s rest fin (refs @ [littleEndian_Uint32 b0 b1 b2 b3])"
| "readUint32s [] fin refs = (refs, fin)"
| "readUint32s bs fin refs =
     (refs, Some (case fin of None \<Rightarrow> ErrUnexpectedEOF | Some err \<Rightarrow> err))"

text \<open>
  The inner \<^verbatim>\<open>switch\<close> on the compression: the reader the integers are read from.
  For \<^verbatim>\<open>zstd\<close> the whole stream is read first (\<^verbatim>\<open>io.ReadAll\<close>), and its error
  returned.
\<close>

definition openCompression :: "codecs \<Rightarrow> string \<Rightarrow> reader \<Rightarrow> error + reader" where
  "openCompression cd compression b =
     (if compression = ''zlib'' then zlib_NewReader cd b
      else if compression = ''gzip'' then gzip_NewReader cd b
      else if compression = ''zstd'' then
        (case zstd_NewReader cd b of
           Inl err \<Rightarrow> Inl err
         | Inr (dc, Some err) \<Rightarrow> Inl err
         | Inr (dc, None) \<Rightarrow> Inr (dc, None))
      else if compression = [] then Inr b
      else Inl (Errorf ErrUnsupportedCompression (CtxString compression)))"

subsection \<open>\<^verbatim>\<open>decodeLayerData\<close> and \<^verbatim>\<open>TileLayer.UnmarshalXML\<close>\<close>

text \<open>
  \<^verbatim>\<open>decodeLayerData(l)\<close> writes \<^verbatim>\<open>l.TileGlobalRefs\<close> through the pointer and returns
  an error: the result is the layer after the call and the error. \<^verbatim>\<open>l.RawData\<close> is a
  pointer, dereferenced without a check.
\<close>

definition decodeLayerData :: "codecs \<Rightarrow> TileLayer \<Rightarrow> (TileLayer \<times> error option) outcome" where
  "decodeLayerData cd l =
     (case TileLayer.RawData l of
        None \<Rightarrow> Panics NilPointerDereference
      | Some raw \<Rightarrow>
          Returns
            (if Encoding raw = ''base64'' then
               (case openCompression cd (Compression raw)
                       (base64_NewDecoder cd (strings_TrimSpace (RawBytes raw))) of
                  Inl err \<Rightarrow> (l, Some err)
                | Inr r \<Rightarrow>
                    (case readUint32s (fst r) (snd r) (TileGlobalRefs l) of
                       (refs, err) \<Rightarrow> (l\<lparr>TileGlobalRefs := refs\<rparr>, err)))
             else if Encoding raw = ''csv'' then
               (case decodeCSV (strings_Split (RawBytes raw) (CHR '','')) (TileGlobalRefs l) of
                  (refs, err) \<Rightarrow> (l\<lparr>TileGlobalRefs := refs\<rparr>, err))
             else if Encoding raw = [] then (l, None)
             else (l, Some (Errorf ErrUnsupportedEncoding (CtxString (Encoding raw))))))"

text \<open>
  \<^verbatim>\<open>TileLayer.UnmarshalXML\<close>: \<open>decoded\<close> is what \<^verbatim>\<open>xd.DecodeElement(&tmp, &start)\<close>
  gave, the error or the record \<^verbatim>\<open>tmp\<close>; \<open>l\<close> is the receiver before the call.
\<close>

definition TileLayer_UnmarshalXML ::
  "codecs \<Rightarrow> error + TileLayer \<Rightarrow> TileLayer \<Rightarrow> (TileLayer \<times> error option) outcome" where
  "TileLayer_UnmarshalXML cd decoded l =
     (case decoded of
        Inl err \<Rightarrow> Returns (l, Some (Errorf2 ErrDecodingTileLayer err))
      | Inr tmp \<Rightarrow>
          (case decodeLayerData cd tmp of
             Panics p \<Rightarrow> Panics p
           | Returns (l', None) \<Rightarrow> Returns (l', None)
           | Returns (l', Some err) \<Rightarrow> Returns (l', Some (Errorf2 ErrDecodingTileLayerData err))))"

section \<open>External references\<close>

text \<open>
  The package variable \<^verbatim>\<open>ResourcePath\<close> is the state every decode shares: the
  two functions below read it. What the operating system and \<^verbatim>\<open>encoding/xml\<close> do
  is a parameter: \<^verbatim>\<open>filepath.Join\<close>, \<^verbatim>\<open>os.Open\<close> (the content of the file, or the
  error), and the decoding of a document into a record. \<^verbatim>\<open>Decode(&tmp)\<close> on a
  tileset writes into the record \<^verbatim>\<open>tmp\<close> it is given, so it is a function of that
  record.

  The decoding of a document is a function of the package variable as well.
  \<^verbatim>\<open>*Tileset\<close>, \<^verbatim>\<open>*Tile\<close>, \<^verbatim>\<open>*ObjectLayer\<close> and \<^verbatim>\<open>*Object\<close> implement
  \<^verbatim>\<open>xml.Unmarshaler\<close>, so \<^verbatim>\<open>encoding/xml\<close> calls their \<^verbatim>\<open>UnmarshalXML\<close> on the
  elements nested in the document: on the objects of the object layer of a tile
  of a tileset document (\<^verbatim>\<open>Tile.ObjectLayer\<close>, \<^verbatim>\<open>ObjectLayer.Objects\<close>), and on the
  tileset and the object of a template document (\<^verbatim>\<open>Template.TileSet\<close>,
  \<^verbatim>\<open>Template.Object\<close>). These calls read \<^verbatim>\<open>ResourcePath\<close> again when the nested
  element has a reference of its own. The two decoders therefore take the
  globals of the run.
\<close>

record globals =
  ResourcePath :: string

record env =
  filepath_Join :: "string \<Rightarrow> string \<Rightarrow> string"
  os_Open :: "string \<Rightarrow> error + string"
  xml_Decode_Tileset :: "globals \<Rightarrow> string \<Rightarrow> Tileset \<Rightarrow> error + Tileset"
  xml_Decode_Template :: "globals \<Rightarrow> string \<Rightarrow> error + Template"

subsection \<open>\<^verbatim>\<open>Tileset.UnmarshalXML\<close>\<close>

text \<open>The loop over \<^verbatim>\<open>*t.Tiles\<close>: the image of the first tile that has one.\<close>

fun firstTileImage :: "Tile list \<Rightarrow> Image option" where
  "firstTileImage [] = None"
| "firstTileImage (tile # rest) =
     (if \<not> Tile_HasImage tile then firstTileImage rest else Tile.Image tile)"

text \<open>
  \<open>decoded\<close> is what \<^verbatim>\<open>xd.DecodeElement(&tmp, &start)\<close> gave and \<open>t\<close> the receiver
  before the call; the result is the receiver after the call and the error. When
  the external document
  fails to decode, the receiver is the copy of \<^verbatim>\<open>tmp\<close> taken before; what the failed
  decode may have written behind the pointers the two records share is not
  modelled. The element of a tileset can hold tiles with object layers, so what
  \<^verbatim>\<open>DecodeElement\<close> gives can depend on \<^verbatim>\<open>ResourcePath\<close> too: a statement that
  compares two runs says what \<open>decoded\<close> is in each.
\<close>

definition Tileset_UnmarshalXML ::
  "env \<Rightarrow> globals \<Rightarrow> error + Tileset \<Rightarrow> Tileset \<Rightarrow> Tileset \<times> error option" where
  "Tileset_UnmarshalXML ev g decoded t =
     (case decoded of
        Inl err \<Rightarrow> (t, Some (Errorf2 ErrDecodingTileset err))
      | Inr tmp \<Rightarrow>
          (let firstGlobalID = Tileset.FirstGlobalID tmp in
           if Tileset.Source tmp = [] then (tmp, None)
           else case os_Open ev (filepath_Join ev (ResourcePath g) (Tileset.Source tmp)) of
               Inl err \<Rightarrow> (tmp, Some (ErrorfMsg ''failed to open Tileset file'' err))
             | Inr f \<Rightarrow>
               (case xml_Decode_Tileset ev g f tmp of
                  Inl err \<Rightarrow> (tmp, Some (Errorf2 ErrDecodingTileset err))
                | Inr tmp' \<Rightarrow>
                    (let t' = (if firstGlobalID \<noteq> 0
                               then tmp'\<lparr>Tileset.FirstGlobalID := firstGlobalID\<rparr>
                               else tmp')
                     in if Tileset_HasImage t' then (t', None)
                        else if \<not> Tileset_HasTiles t'
                        then (t', Some (Errorf ErrDecodingTileset
                                (CtxString ''tileset or tiles missing source image'')))
                        else (case firstTileImage (the (Tileset.Tiles t')) of
                                None \<Rightarrow>
                                  (t', Some (Errorf ErrDecodingTileset
                                     (CtxString ''tileset or tiles missing source image'')))
                              | Some img \<Rightarrow> (t'\<lparr>Tileset.Image := Some img\<rparr>, None))))))"

subsection \<open>\<^verbatim>\<open>Object.UnmarshalXML\<close>\<close>

text \<open>
  The sixteen assignments after the template has been decoded, in the order of the
  source. Each reads the field of \<^verbatim>\<open>tmp\<close>, the record decoded from the element of the
  object itself, as the source does. The guard of the assignment to \<^verbatim>\<open>Polyline\<close> tests
  \<^verbatim>\<open>Polygon\<close>, as the source does.
\<close>

definition mergeObject :: "Object \<Rightarrow> Object \<Rightarrow> Object" where
  "mergeObject ob tmp =
     (let ob = (if Object.Name ob = [] then ob\<lparr>Object.Name := Object.Name tmp\<rparr> else ob);
          ob = (if Object.Type ob = [] then ob\<lparr>Object.Type := Object.Type tmp\<rparr> else ob);
          ob = (if float32_isZero (Object.X ob) then ob\<lparr>Object.X := Object.X tmp\<rparr> else ob);
          ob = (if float32_isZero (Object.Y ob) then ob\<lparr>Object.Y := Object.Y tmp\<rparr> else ob);
          ob = (if float32_isZero (Object.Width ob)
                then ob\<lparr>Object.Width := Object.Width tmp\<rparr> else ob);
          ob = (if float32_isZero (Object.Height ob)
                then ob\<lparr>Object.Height := Object.Height tmp\<rparr> else ob);
          ob = (if float32_isZero (Object.Rotation ob)
                then ob\<lparr>Object.Rotation := Object.Rotation tmp\<rparr> else ob);
          ob = (if \<not> Object.Visible ob then ob\<lparr>Object.Visible := Object.Visible tmp\<rparr> else ob);
          ob = (if Object.GlobalID ob = 0
                then ob\<lparr>Object.GlobalID := Object.GlobalID tmp\<rparr> else ob);
          ob = (if Object.Properties ob = None
                then ob\<lparr>Object.Properties := Object.Properties tmp\<rparr> else ob);
          ob = (if Object.Image ob = None then ob\<lparr>Object.Image := Object.Image tmp\<rparr> else ob);
          ob = (if Object.Polygon ob = None
                then ob\<lparr>Object.Polygon := Object.Polygon tmp\<rparr> else ob);
          ob = (if Object.Polygon ob = None
                then ob\<lparr>Object.Polyline := Object.Polyline tmp\<rparr> else ob);
          ob = (if Object.Text ob = None then ob\<lparr>Object.Text := Object.Text tmp\<rparr> else ob);
          ob = (if Object.Ellipse ob = None
                then ob\<lparr>Object.Ellipse := Object.Ellipse tmp\<rparr> else ob);
          ob = (if Object.Point ob = None then ob\<lparr>Object.Point := Object.Point tmp\<rparr> else ob)
      in ob)"

text \<open>
  \<open>decoded\<close> is what \<^verbatim>\<open>xd.DecodeElement(&tmp, &start)\<close> gave and \<open>ob\<close> the receiver
  before the call. The template is decoded into the local variable \<^verbatim>\<open>template\<close>,
  which no later statement reads: the merge is \<open>mergeObject tmp tmp\<close>, the receiver
  being a copy of \<^verbatim>\<open>tmp\<close> at that point.
\<close>

definition Object_UnmarshalXML ::
  "env \<Rightarrow> globals \<Rightarrow> error + Object \<Rightarrow> Object \<Rightarrow> Object \<times> error option" where
  "Object_UnmarshalXML ev g decoded ob =
     (case decoded of
        Inl err \<Rightarrow> (ob, Some (Errorf2 ErrDecodingTileLayer err))
      | Inr tmp \<Rightarrow>
          (if Object.Template tmp = [] then (tmp, None)
           else (case os_Open ev (filepath_Join ev (ResourcePath g) (Object.Template tmp)) of
                   Inl err \<Rightarrow> (tmp, Some (ErrorfMsg ''failed to open template file'' err))
                 | Inr f \<Rightarrow>
                     (case xml_Decode_Template ev g f of
                        Inl err \<Rightarrow> (tmp, Some (Errorf2 ErrDecodingTemplate err))
                      | Inr template \<Rightarrow> (mergeObject tmp tmp, None)))))"

section \<open>Values for the examples\<close>

text \<open>
  The zero values of the structs (what Go gives a variable that is declared and not
  assigned), and a tileset that only has a first global identifier.
\<close>

definition zeroTileset :: Tileset where
  "zeroTileset =
     \<lparr>FirstGlobalID = 0, Source = [], Name = [], Class = [], TileWidth = 0, TileHeight = 0,
      Spacing = 0, Margin = 0, TileCount = 0, Columns = 0, ObjectAlignment = Unspecified,
      Properties = None, TileOffset = None, Image = None, TerrainTypes = None,
      WangSets = None, Tiles = None, Transformations = None\<rparr>"

definition tilesetAt :: "GlobalID \<Rightarrow> Tileset" where
  "tilesetAt n = zeroTileset\<lparr>Tileset.FirstGlobalID := n\<rparr>"

definition zeroTileLayer :: TileLayer where
  "zeroTileLayer =
     \<lparr>ID = [], Name = [], Class = [], X = 0, Y = 0, Width = 0, Height = 0, Opacity = 0,
      Visible = False, TintColor = [], OffsetX = 0, OffsetY = 0, ParallaxX = 0,
      ParallaxY = 0, Properties = None, RawData = None, TileGlobalRefs = [],
      TileDefs = []\<rparr>"

text \<open>
  Layers: one whose payload is text, a layer of width 4 and height 3 with twelve
  tile definitions, the layer decoded from a payload of two references for a
  declared size of 2 by 2, and a layer of that size whose data element has no
  encoding. No binary decoder is needed for them.
\<close>

definition noCodecs :: codecs where
  "noCodecs =
     \<lparr>base64_NewDecoder = (\<lambda>b. ([], Some (LibError ''no decoder''))),
      zlib_NewReader = (\<lambda>r. Inl (LibError ''no zlib'')),
      gzip_NewReader = (\<lambda>r. Inl (LibError ''no gzip'')),
      zstd_NewReader = (\<lambda>r. Inl (LibError ''no zstd''))\<rparr>"

definition csvLayer :: "goint \<Rightarrow> goint \<Rightarrow> string \<Rightarrow> TileLayer" where
  "csvLayer w h payload =
     zeroTileLayer\<lparr>TileLayer.Width := w, TileLayer.Height := h,
       RawData := Some \<lparr>Encoding = ''csv'', Compression = [], RawBytes = payload\<rparr>\<rparr>"

definition gridLayer :: TileLayer where
  "gridLayer =
     zeroTileLayer\<lparr>TileLayer.Width := 4, TileLayer.Height := 3,
       TileDefs := map (\<lambda>g. newTileDef g (tilesetAt 1)) [1, 2, 3, 4, 5, 6, 7, 8, 9, 10, 11, 12]\<rparr>"

definition shortLayer :: TileLayer where
  "shortLayer =
     (csvLayer 2 2 ''1,2'')\<lparr>TileDefs := [newTileDef 1 (tilesetAt 1), newTileDef 2 (tilesetAt 1)]\<rparr>"

definition inlineLayer :: TileLayer where
  "inlineLayer =
     zeroTileLayer\<lparr>TileLayer.Width := 2, TileLayer.Height := 2,
       RawData := Some \<lparr>Encoding = [], Compression = [], RawBytes = []\<rparr>\<rparr>"

text \<open>
  An environment for the external references. The directories \<^verbatim>\<open>maps\<close> and
  \<^verbatim>\<open>mirror\<close> hold the same tileset document \<^verbatim>\<open>base.tsx\<close> and \<^verbatim>\<open>other\<close> a
  different one; \<^verbatim>\<open>maps\<close> holds the template \<^verbatim>\<open>door.tx\<close>. \<open>joinClean\<close> is
  \<^verbatim>\<open>filepath.Join\<close> on two elements that need no cleaning. The tileset document
  \<^verbatim>\<open>base\<close> declares the first global identifier 1, a name and an image; the
  template \<^verbatim>\<open>door\<close> declares an object named \<^verbatim>\<open>Default\<close>. These three documents
  hold no reference, so their decoding does not read \<^verbatim>\<open>ResourcePath\<close>.

  Two documents hold a reference. \<^verbatim>\<open>rooms.tsx\<close>, the same in \<^verbatim>\<open>maps\<close> and \<^verbatim>\<open>mirror\<close>,
  is a tileset with an image and one tile, whose object layer has the object
  \<^verbatim>\<open><object id="7" template="door.tx"/>\<close>. \<^verbatim>\<open>gate.tx\<close>, the same in \<^verbatim>\<open>maps\<close> and
  \<^verbatim>\<open>lone\<close>, is a template with the tileset \<^verbatim>\<open><tileset firstgid="1" source="base.tsx"/>\<close>
  and an object named \<^verbatim>\<open>Gate\<close>. Decoding them runs \<^verbatim>\<open>Object.UnmarshalXML\<close>, resp.
  \<^verbatim>\<open>Tileset.UnmarshalXML\<close>, on the nested element, under the \<^verbatim>\<open>ResourcePath\<close> of the
  run; an error of the nested call is the error of the decoding, wrapped by
  \<^verbatim>\<open>ObjectLayer.UnmarshalXML\<close> and \<^verbatim>\<open>Tile.UnmarshalXML\<close> on its way out of a tileset
  document. \<^verbatim>\<open>mirror\<close> has no \<^verbatim>\<open>door.tx\<close> and \<^verbatim>\<open>lone\<close> no \<^verbatim>\<open>base.tsx\<close>.
\<close>

definition zeroObject :: Object where
  "zeroObject =
     \<lparr>ObjectID = 0, Name = [], Type = [], X = 0, Y = 0, Width = 0, Height = 0, Rotation = 0,
      Visible = False, Template = [], GlobalID = 0, Properties = None, Image = None,
      Polygon = None, Polyline = None, Text = None, Point = None, Ellipse = None\<rparr>"

definition zeroObjectLayer :: ObjectLayer where
  "zeroObjectLayer =
     \<lparr>ObjectLayer.ID = [], ObjectLayer.Name = [], ObjectLayer.Class = [],
      ObjectLayer.Color = [], ObjectLayer.X = 0, ObjectLayer.Y = 0, ObjectLayer.Width = 0,
      ObjectLayer.Height = 0, ObjectLayer.Opacity = 0, ObjectLayer.Visible = False,
      ObjectLayer.OffsetX = 0, ObjectLayer.OffsetY = 0, ObjectLayer.ParallaxX = 0,
      ObjectLayer.ParallaxY = 0, ObjectLayer.DrawOrder = TopDown,
      ObjectLayer.Properties = None, ObjectLayer.Objects = None\<rparr>"

definition zeroTile :: Tile where
  "zeroTile =
     \<lparr>Tile.TileID = 0, Tile.X = 0, Tile.Y = 0, Tile.Width = 0, Tile.Height = 0,
      Tile.Probability = 0, Tile.Type = [], Tile.RawTerrainType = [],
      Tile.Properties = None, Tile.Image = None, Tile.Animation = None,
      Tile.ObjectLayer = None, Tile.TerrainType = None\<rparr>"

definition numbersPng :: Image where
  "numbersPng =
     \<lparr>Format = Png, Source = ''numbers.png'', TransparentColor = [], Width = 64, Height = 64,
      Data = None\<rparr>"

definition joinClean :: "string \<Rightarrow> string \<Rightarrow> string" where
  "joinClean dir name = (if dir = [] then name else dir @ ''/'' @ name)"

definition exampleOpen :: "string \<Rightarrow> error + string" where
  "exampleOpen path =
     (if path = ''maps/base.tsx'' then Inr ''base tileset''
      else if path = ''mirror/base.tsx'' then Inr ''base tileset''
      else if path = ''other/base.tsx'' then Inr ''other tileset''
      else if path = ''maps/door.tx'' then Inr ''door template''
      else if path = ''maps/rooms.tsx'' then Inr ''rooms tileset''
      else if path = ''mirror/rooms.tsx'' then Inr ''rooms tileset''
      else if path = ''maps/gate.tx'' then Inr ''gate template''
      else if path = ''lone/gate.tx'' then Inr ''gate template''
      else Inl (LibError ''no such file or directory''))"


definition doorRef :: Object where
  "doorRef = zeroObject\<lparr>Object.ObjectID := 7, Object.Template := ''door.tx''\<rparr>"



text \<open>The documents without a reference, and the environment that decodes them.\<close>

definition leafDecodeTileset :: "string \<Rightarrow> Tileset \<Rightarrow> error + Tileset" where
  "leafDecodeTileset doc tmp =
     (if doc = ''base tileset''
      then Inr (tmp\<lparr>Tileset.FirstGlobalID := 1, Tileset.Name := ''base'',
                    Tileset.Image := Some numbersPng\<rparr>)
      else if doc = ''other tileset''
      then Inr (tmp\<lparr>Tileset.Name := ''other'', Tileset.Image := Some numbersPng\<rparr>)
      else Inl (LibError ''not a tileset''))"

definition leafDecodeTemplate :: "string \<Rightarrow> error + Template" where
  "leafDecodeTemplate doc =
     (if doc = ''door template''
      then Inr \<lparr>Template.TileSet = None,
                Template.Object = Some (zeroObject\<lparr>Object.Name := ''Default'', Object.Type := ''door'',
                                 Object.Visible := True\<rparr>)\<rparr>
      else Inl (LibError ''not a template''))"

definition leafEnv :: env where
  "leafEnv =
     \<lparr>filepath_Join = joinClean, os_Open = exampleOpen,
      xml_Decode_Tileset = (\<lambda>g. leafDecodeTileset),
      xml_Decode_Template = (\<lambda>g. leafDecodeTemplate)\<rparr>"

text \<open>
  The tile of \<^verbatim>\<open>rooms.tsx\<close> once its object has been decoded: \<^verbatim>\<open>Tile.UnmarshalXML\<close>
  gives a tile without a terrain attribute the terrain type \<^verbatim>\<open>&TerrainType{}\<close>.
\<close>

definition roomsTile :: "Object \<Rightarrow> Tile" where
  "roomsTile ob =
     zeroTile\<lparr>Tile.ObjectLayer := Some (zeroObjectLayer\<lparr>ObjectLayer.Objects := Some [ob]\<rparr>),
       Tile.TerrainType := Some \<lparr>TopLeft = 0, TopRight = 0, BottomLeft = 0, BottomRight = 0\<rparr>\<rparr>"

definition exampleDecodeTileset :: "globals \<Rightarrow> string \<Rightarrow> Tileset \<Rightarrow> error + Tileset" where
  "exampleDecodeTileset g doc tmp =
     (if doc = ''rooms tileset''
      then (case Object_UnmarshalXML leafEnv g (Inr doorRef) zeroObject of
              (ob, None) \<Rightarrow>
                Inr (tmp\<lparr>Tileset.Name := ''rooms'', Tileset.Image := Some numbersPng,
                         Tileset.Tiles := Some [roomsTile ob]\<rparr>)
            | (ob, Some err) \<Rightarrow>
                Inl (Errorf2 ErrDecodingTile (Errorf2 ErrDecodingObjectLayer err)))
      else leafDecodeTileset doc tmp)"

definition exampleDecodeTemplate :: "globals \<Rightarrow> string \<Rightarrow> error + Template" where
  "exampleDecodeTemplate g doc =
     (if doc = ''gate template''
      then (case Tileset_UnmarshalXML leafEnv g
                   (Inr (zeroTileset\<lparr>Tileset.FirstGlobalID := 1, Tileset.Source := ''base.tsx''\<rparr>))
                   zeroTileset of
              (ts, None) \<Rightarrow>
                Inr \<lparr>Template.TileSet = Some ts,
                     Template.Object = Some (zeroObject\<lparr>Object.Name := ''Gate'',
                                               Object.Type := ''door''\<rparr>)\<rparr>
            | (ts, Some err) \<Rightarrow> Inl err)
      else leafDecodeTemplate doc)"

definition exampleEnv :: env where
  "exampleEnv =
     \<lparr>filepath_Join = joinClean, os_Open = exampleOpen,
      xml_Decode_Tileset = exampleDecodeTileset, xml_Decode_Template = exampleDecodeTemplate\<rparr>"

section \<open>Properties of the global identifiers\<close>

lemma TileFlipped_value: "TileFlipped = 0xE0000000"
  by (simp add: TileFlipped_def TileFlippedHorizontally_def TileFlippedVertically_def
      TileFlippedDiagonally_def)

lemma BareID_take_bit: "BareID g = take_bit 29 g"
proof -
  have m: "NOT (0xE0000000 :: 32 word) = mask 29"
    by (simp add: mask_eq_exp_minus_1)
  show ?thesis
    unfolding BareID_def TileFlipped_value by (simp only: m take_bit_eq_mask)
qed

lemma flag_take_bit:
  "take_bit 29 TileFlippedHorizontally = 0"
  "take_bit 29 TileFlippedVertically = 0"
  "take_bit 29 TileFlippedDiagonally = 0"
  by (simp_all add: TileFlippedHorizontally_def TileFlippedVertically_def
      TileFlippedDiagonally_def take_bit_eq_mask mask_eq_exp_minus_1)

lemma take_bit_small: "(n :: 32 word) < 2 ^ 29 \<Longrightarrow> take_bit 29 n = n"
  by (simp add: take_bit_eq_mask less_mask_eq)

text \<open>
  Claim C7. For every \<open>n < 2 ^ 29\<close>, \<open>BareID\<close> of \<open>n\<close> with any combination of the
  three flip bits set (\<open>h\<close>, \<open>v\<close>, \<open>d\<close> say which), and in particular with all
  three, is \<open>n\<close>; and \<open>BareID\<close> clears exactly the top three bits: bit \<open>k\<close> of
  \<open>BareID g\<close> is bit \<open>k\<close> of \<open>g\<close> below position 29 and is clear from there on.
\<close>

theorem BareID_strips_flip_bits:
  assumes "n < 2 ^ 29"
  shows "BareID ((if h then TileFlippedHorizontally else 0)
                  OR (if v then TileFlippedVertically else 0)
                  OR (if d then TileFlippedDiagonally else 0) OR n) = n
       \<and> BareID (TileFlippedHorizontally OR TileFlippedVertically
                   OR TileFlippedDiagonally OR n) = n
       \<and> (\<forall>g k. bit (BareID g) k = (k < 29 \<and> bit g k))"
proof -
  have n: "take_bit 29 n = n" using assms by (rule take_bit_small)
  have a: "BareID ((if h then TileFlippedHorizontally else 0)
                  OR (if v then TileFlippedVertically else 0)
                  OR (if d then TileFlippedDiagonally else 0) OR n) = n"
    by (simp add: BareID_take_bit flag_take_bit n)
  have b: "BareID (TileFlippedHorizontally OR TileFlippedVertically
                    OR TileFlippedDiagonally OR n) = n"
    by (simp add: BareID_take_bit flag_take_bit n)
  have c: "\<forall>g k. bit (BareID g) k = (k < 29 \<and> bit g k)"
    by (simp add: BareID_take_bit bit_take_bit_iff)
  from a b c show ?thesis by blast
qed

theorem BareID_strips_flip_bits_witness:
  "(5 :: 32 word) < 2 ^ 29 \<and> BareID 0xE0000005 = 5 \<and> BareID 0xA0000005 = 5"
proof -
  have h: "(5 :: 32 word) < 2 ^ 29" by simp
  have "BareID (TileFlippedHorizontally OR TileFlippedVertically
                 OR TileFlippedDiagonally OR 5) = 5"
    using BareID_strips_flip_bits [OF h] by blast
  moreover have "BareID ((if True then TileFlippedHorizontally else 0)
                  OR (if False then TileFlippedVertically else 0)
                  OR (if True then TileFlippedDiagonally else 0) OR 5) = 5"
    using BareID_strips_flip_bits [OF h, of True False True] by blast
  ultimately show ?thesis
    using h by (simp add: TileFlippedHorizontally_def TileFlippedVertically_def
      TileFlippedDiagonally_def)
qed

section \<open>Properties of the tileset resolution\<close>

text \<open>
  The scan returns the last tileset of the longest prefix whose first identifiers
  do not exceed the bare identifier, whatever the order of the tilesets.
\<close>

lemma scanTilesets_takeWhile:
  "scanTilesets b tss acc =
     (case takeWhile (\<lambda>t. Tileset.FirstGlobalID t \<le> b) tss of
        [] \<Rightarrow> acc
      | t # ts \<Rightarrow> Some (last (t # ts)))"
  by (induction tss arbitrary: acc) (auto simp: not_less split: list.splits)

lemma takeWhile_sorted_filter:
  "sorted (map f xs) \<Longrightarrow> takeWhile (\<lambda>x. f x \<le> b) xs = filter (\<lambda>x. f x \<le> (b :: 'a :: linorder)) xs"
proof (induction xs)
  case Nil
  then show ?case by simp
next
  case (Cons x xs)
  show ?case
  proof (cases "f x \<le> b")
    case True
    with Cons show ?thesis by simp
  next
    case False
    with Cons.prems have "\<forall>y \<in> set xs. \<not> f y \<le> b" by (auto simp: not_le)
    then have "filter (\<lambda>x. f x \<le> b) xs = []" by (simp add: filter_empty_conv)
    with False show ?thesis by simp
  qed
qed

lemma scanTilesets_sorted:
  assumes "sorted (map Tileset.FirstGlobalID tss)"
  shows "scanTilesets b tss None =
     (case filter (\<lambda>t. Tileset.FirstGlobalID t \<le> b) tss of
        [] \<Rightarrow> None
      | t # ts \<Rightarrow> Some (last (t # ts)))"
  by (simp add: scanTilesets_takeWhile takeWhile_sorted_filter [OF assms])

lemma sorted_last_max:
  "sorted (map f zs) \<Longrightarrow> u \<in> set zs \<Longrightarrow> f u \<le> (f (last zs) :: 'a :: linorder)"
proof (induction zs)
  case Nil
  then show ?case by simp
next
  case (Cons z zs)
  show ?case
  proof (cases "zs = []")
    case True
    with Cons.prems show ?thesis by simp
  next
    case False
    then have "last zs \<in> set zs" by (rule last_in_set)
    with Cons False show ?thesis by auto
  qed
qed

lemma last_filter_greatest:
  assumes "sorted (map f xs)" and "filter (\<lambda>x. f x \<le> (b :: 'a :: linorder)) xs \<noteq> []"
  shows "last (filter (\<lambda>x. f x \<le> b) xs) \<in> set xs
       \<and> f (last (filter (\<lambda>x. f x \<le> b) xs)) \<le> b
       \<and> (\<forall>u \<in> set xs. f u \<le> b \<longrightarrow> f u \<le> f (last (filter (\<lambda>x. f x \<le> b) xs)))"
proof -
  let ?F = "filter (\<lambda>x. f x \<le> b) xs"
  have mem: "last ?F \<in> set ?F" using assms(2) by (rule last_in_set)
  then have m1: "last ?F \<in> set xs" and m2: "f (last ?F) \<le> b" by simp_all
  have s: "sorted (map f ?F)" using assms(1) by (simp add: sorted_filter)
  have "\<forall>u \<in> set xs. f u \<le> b \<longrightarrow> f u \<le> f (last ?F)"
  proof (intro ballI impI)
    fix u assume "u \<in> set xs" "f u \<le> b"
    then have "u \<in> set ?F" by simp
    then show "f u \<le> f (last ?F)" by (rule sorted_last_max [OF s])
  qed
  with m1 m2 show ?thesis by blast
qed

text \<open>
  Claim C1. The tilesets are sorted ascending by \<^verbatim>\<open>FirstGlobalID\<close> and \<open>BareID g\<close> is
  the bare identifier \<open>b\<close>. The resolution fails exactly when every tileset starts
  above \<open>b\<close>, and then with \<^verbatim>\<open>ErrNoSuitableTileset\<close>; when it succeeds, the tileset
  it returns is one of the collection, starts at or below \<open>b\<close>, no tileset starting
  at or below \<open>b\<close> starts later, and it is the last one the ascending scan reached
  before the first start above \<open>b\<close>. With the starts 1, 10 and 50: 9 resolves to the
  first tileset, 49 to the second, and 0 fails. (The theorem holds for \<open>b = 0\<close> too,
  which \<^verbatim>\<open>decodeTileDefs\<close> never passes to the scan.)
\<close>

theorem resolveTileset_greatest_start:
  assumes "sorted (map Tileset.FirstGlobalID tss)"
  shows "((\<exists>e. resolveTileset g tss = Inl e) \<longleftrightarrow>
            (\<forall>t \<in> set tss. BareID g < Tileset.FirstGlobalID t))
       \<and> (\<forall>e. resolveTileset g tss = Inl e \<longrightarrow> e = Errorf ErrNoSuitableTileset (CtxGlobalID g))
       \<and> (\<forall>ts. resolveTileset g tss = Inr ts \<longrightarrow>
             ts \<in> set tss \<and> Tileset.FirstGlobalID ts \<le> BareID g
             \<and> (\<forall>u \<in> set tss. Tileset.FirstGlobalID u \<le> BareID g \<longrightarrow>
                   Tileset.FirstGlobalID u \<le> Tileset.FirstGlobalID ts)
             \<and> ts = last (takeWhile (\<lambda>t. Tileset.FirstGlobalID t \<le> BareID g) tss))
       \<and> (\<forall>t1 t2 t3. tss = [t1, t2, t3] \<and> Tileset.FirstGlobalID t1 = 1
             \<and> Tileset.FirstGlobalID t2 = 10 \<and> Tileset.FirstGlobalID t3 = 50 \<longrightarrow>
             (BareID g = 9 \<longrightarrow> resolveTileset g tss = Inr t1)
             \<and> (BareID g = 49 \<longrightarrow> resolveTileset g tss = Inr t2)
             \<and> (BareID g = 0 \<longrightarrow>
                  resolveTileset g tss = Inl (Errorf ErrNoSuitableTileset (CtxGlobalID g))))"
proof -
  let ?P = "\<lambda>t. Tileset.FirstGlobalID t \<le> BareID g"
  let ?F = "filter ?P tss"
  have tw: "takeWhile ?P tss = ?F"
    using assms by (rule takeWhile_sorted_filter)
  have r: "resolveTileset g tss =
      (if ?F = [] then Inl (Errorf ErrNoSuitableTileset (CtxGlobalID g)) else Inr (last ?F))"
    unfolding resolveTileset_def scanTilesets_takeWhile tw
    by (simp split: list.splits)
  have e: "?F = [] \<longleftrightarrow> (\<forall>t \<in> set tss. BareID g < Tileset.FirstGlobalID t)"
    by (simp add: filter_empty_conv not_le)
  have a: "(\<exists>e. resolveTileset g tss = Inl e) \<longleftrightarrow>
            (\<forall>t \<in> set tss. BareID g < Tileset.FirstGlobalID t)"
    unfolding e [symmetric] by (simp add: r)
  have b: "\<forall>e. resolveTileset g tss = Inl e \<longrightarrow> e = Errorf ErrNoSuitableTileset (CtxGlobalID g)"
    by (simp add: r)
  have c: "\<forall>ts. resolveTileset g tss = Inr ts \<longrightarrow>
             ts \<in> set tss \<and> Tileset.FirstGlobalID ts \<le> BareID g
             \<and> (\<forall>u \<in> set tss. Tileset.FirstGlobalID u \<le> BareID g \<longrightarrow>
                   Tileset.FirstGlobalID u \<le> Tileset.FirstGlobalID ts)
             \<and> ts = last (takeWhile ?P tss)"
  proof (intro allI impI)
    fix ts assume h: "resolveTileset g tss = Inr ts"
    then have ne: "?F \<noteq> []" by (auto simp: r split: if_splits)
    with h have ts: "ts = last ?F" by (simp add: r)
    from last_filter_greatest [OF assms ne]
    show "ts \<in> set tss \<and> Tileset.FirstGlobalID ts \<le> BareID g
             \<and> (\<forall>u \<in> set tss. Tileset.FirstGlobalID u \<le> BareID g \<longrightarrow>
                   Tileset.FirstGlobalID u \<le> Tileset.FirstGlobalID ts)
             \<and> ts = last (takeWhile ?P tss)"
      unfolding tw ts by blast
  qed
  have d: "\<forall>t1 t2 t3. tss = [t1, t2, t3] \<and> Tileset.FirstGlobalID t1 = 1
             \<and> Tileset.FirstGlobalID t2 = 10 \<and> Tileset.FirstGlobalID t3 = 50 \<longrightarrow>
             (BareID g = 9 \<longrightarrow> resolveTileset g tss = Inr t1)
             \<and> (BareID g = 49 \<longrightarrow> resolveTileset g tss = Inr t2)
             \<and> (BareID g = 0 \<longrightarrow>
                  resolveTileset g tss = Inl (Errorf ErrNoSuitableTileset (CtxGlobalID g)))"
    by (simp add: resolveTileset_def)
  from a b c d show ?thesis by blast
qed

theorem resolveTileset_greatest_start_witness:
  "sorted (map Tileset.FirstGlobalID [tilesetAt 1, tilesetAt 10, tilesetAt 50])
   \<and> resolveTileset 9 [tilesetAt 1, tilesetAt 10, tilesetAt 50] = Inr (tilesetAt 1)
   \<and> resolveTileset 0xE0000031 [tilesetAt 1, tilesetAt 10, tilesetAt 50] = Inr (tilesetAt 10)
   \<and> resolveTileset 0 [tilesetAt 1, tilesetAt 10, tilesetAt 50]
        = Inl (Errorf ErrNoSuitableTileset (CtxGlobalID 0))"
proof -
  let ?tss = "[tilesetAt 1, tilesetAt 10, tilesetAt 50]"
  have s: "sorted (map Tileset.FirstGlobalID ?tss)"
    by (simp add: tilesetAt_def zeroTileset_def)
  have f: "Tileset.FirstGlobalID (tilesetAt 1) = 1" "Tileset.FirstGlobalID (tilesetAt 10) = 10"
    "Tileset.FirstGlobalID (tilesetAt 50) = 50"
    by (simp_all add: tilesetAt_def)
  have b: "BareID 9 = 9" "BareID 0xE0000031 = 49" "BareID 0 = 0"
    by (simp_all add: BareID_take_bit)
  from resolveTileset_greatest_start [OF s, of 9] f b
  have 1: "resolveTileset 9 ?tss = Inr (tilesetAt 1)" by blast
  from resolveTileset_greatest_start [OF s, of "0xE0000031"] f b
  have 2: "resolveTileset 0xE0000031 ?tss = Inr (tilesetAt 10)" by blast
  from resolveTileset_greatest_start [OF s, of 0] f b
  have 3: "resolveTileset 0 ?tss = Inl (Errorf ErrNoSuitableTileset (CtxGlobalID 0))" by blast
  from s 1 2 3 show ?thesis by blast
qed

section \<open>Properties of the tile definitions\<close>

lemma resolveTileset_Inl:
  "resolveTileset g tss = Inl e \<Longrightarrow> e = Errorf ErrNoSuitableTileset (CtxGlobalID g)"
  by (auto simp: resolveTileset_def split: option.splits)

lemma decodeTileDefs_loop_None:
  "decodeTileDefs_loop gs tss defs = (defs', None) \<Longrightarrow>
     defs' = defs @ map (\<lambda>g. if BareID g = 0 then nilTileDef
                             else case resolveTileset g tss of
                                    Inl e \<Rightarrow> nilTileDef
                                  | Inr ts \<Rightarrow> newTileDef g ts) gs"
proof (induction gs arbitrary: defs)
  case Nil
  then show ?case by simp
next
  case (Cons g gs)
  show ?case
  proof (cases "BareID g = 0")
    case True
    with Cons.prems have "decodeTileDefs_loop gs tss (defs @ [nilTileDef]) = (defs', None)"
      by simp
    from Cons.IH [OF this] True show ?thesis by simp
  next
    case False
    with Cons.prems obtain ts where ts: "resolveTileset g tss = Inr ts"
      and "decodeTileDefs_loop gs tss (defs @ [newTileDef g ts]) = (defs', None)"
      by (auto split: sum.splits)
    from Cons.IH [OF this(2)] False ts show ?thesis by simp
  qed
qed

lemma decodeTileDefs_loop_Some:
  "decodeTileDefs_loop gs tss defs = (defs', Some e) \<Longrightarrow>
     \<exists>g \<in> set gs. BareID g \<noteq> 0 \<and> resolveTileset g tss = Inl e"
  by (induction gs arbitrary: defs) (auto split: if_splits sum.splits)

lemma decodeTileDefs_loop_zero:
  "\<forall>g \<in> set gs. BareID g = 0 \<Longrightarrow>
     decodeTileDefs_loop gs tss defs = (defs @ replicate (length gs) nilTileDef, None)"
  by (induction gs arbitrary: defs) (auto simp: replicate_app_Cons_same)

text \<open>
  Claim C6. A reference whose bare identifier is 0 gives the nil tile definition,
  whatever its flag bits, and is never resolved against the tilesets: a layer whose
  references all have the bare identifier 0 is decoded without error for every
  collection of tilesets (the empty one too), each cell being the nil definition;
  in every successful decode the cell of such a reference is the nil definition;
  and an error of the decode comes from a reference whose bare identifier is not 0.
  The identifier \<^verbatim>\<open>0x80000000\<close>, and the one with all three flags, have the bare
  identifier 0.
\<close>

theorem zero_bare_ID_is_nil_tile:
  "((\<forall>g \<in> set (TileGlobalRefs l). BareID g = 0) \<longrightarrow>
      decodeTileDefs l tss =
        (l\<lparr>TileGlobalRefs := [],
           TileDefs := TileDefs l @ replicate (length (TileGlobalRefs l)) nilTileDef\<rparr>, None))
   \<and> (decodeTileDefs l tss = (l', None) \<longrightarrow>
        length (TileDefs l') = length (TileDefs l) + length (TileGlobalRefs l)
        \<and> (\<forall>k < length (TileGlobalRefs l). BareID (TileGlobalRefs l ! k) = 0 \<longrightarrow>
              TileDefs l' ! (length (TileDefs l) + k) = nilTileDef))
   \<and> (decodeTileDefs l tss = (l', Some e) \<longrightarrow>
        (\<exists>g \<in> set (TileGlobalRefs l).
            BareID g \<noteq> 0 \<and> e = Errorf ErrNoSuitableTileset (CtxGlobalID g)))
   \<and> TileDef.Nil' nilTileDef \<and> TileDef.TileSet nilTileDef = None
   \<and> BareID 0x80000000 = 0 \<and> BareID TileFlipped = 0"
proof -
  have a: "(\<forall>g \<in> set (TileGlobalRefs l). BareID g = 0) \<longrightarrow>
      decodeTileDefs l tss =
        (l\<lparr>TileGlobalRefs := [],
           TileDefs := TileDefs l @ replicate (length (TileGlobalRefs l)) nilTileDef\<rparr>, None)"
    by (simp add: decodeTileDefs_def decodeTileDefs_loop_zero)
  have b: "decodeTileDefs l tss = (l', None) \<longrightarrow>
        length (TileDefs l') = length (TileDefs l) + length (TileGlobalRefs l)
        \<and> (\<forall>k < length (TileGlobalRefs l). BareID (TileGlobalRefs l ! k) = 0 \<longrightarrow>
              TileDefs l' ! (length (TileDefs l) + k) = nilTileDef)"
  proof
    assume h: "decodeTileDefs l tss = (l', None)"
    obtain defs where d: "decodeTileDefs_loop (TileGlobalRefs l) tss (TileDefs l) = (defs, None)"
      and l': "l' = l\<lparr>TileGlobalRefs := [], TileDefs := defs\<rparr>"
      using h by (auto simp: decodeTileDefs_def split: prod.splits option.splits)
    from decodeTileDefs_loop_None [OF d] l'
    show "length (TileDefs l') = length (TileDefs l) + length (TileGlobalRefs l)
        \<and> (\<forall>k < length (TileGlobalRefs l). BareID (TileGlobalRefs l ! k) = 0 \<longrightarrow>
              TileDefs l' ! (length (TileDefs l) + k) = nilTileDef)"
      by (simp add: nth_append)
  qed
  have c: "decodeTileDefs l tss = (l', Some e) \<longrightarrow>
        (\<exists>g \<in> set (TileGlobalRefs l).
            BareID g \<noteq> 0 \<and> e = Errorf ErrNoSuitableTileset (CtxGlobalID g))"
  proof
    assume h: "decodeTileDefs l tss = (l', Some e)"
    obtain defs where d: "decodeTileDefs_loop (TileGlobalRefs l) tss (TileDefs l) = (defs, Some e)"
      using h by (auto simp: decodeTileDefs_def split: prod.splits option.splits)
    from decodeTileDefs_loop_Some [OF d]
    show "\<exists>g \<in> set (TileGlobalRefs l).
            BareID g \<noteq> 0 \<and> e = Errorf ErrNoSuitableTileset (CtxGlobalID g)"
      by (blast dest: resolveTileset_Inl)
  qed
  have d: "TileDef.Nil' nilTileDef \<and> TileDef.TileSet nilTileDef = None
   \<and> BareID 0x80000000 = 0 \<and> BareID TileFlipped = 0"
    by (simp add: nilTileDef_def BareID_def TileFlipped_def TileFlippedHorizontally_def
      TileFlippedVertically_def TileFlippedDiagonally_def)
  from a b c d show ?thesis by blast
qed

theorem zero_bare_ID_is_nil_tile_witness:
  "decodeTileDefs (zeroTileLayer\<lparr>TileGlobalRefs := [0x80000000, 0, 0xE0000000]\<rparr>) []
     = (zeroTileLayer\<lparr>TileDefs := [nilTileDef, nilTileDef, nilTileDef]\<rparr>, None)"
proof -
  let ?l = "zeroTileLayer\<lparr>TileGlobalRefs := [0x80000000, 0, 0xE0000000]\<rparr>"
  have z: "\<forall>g \<in> set (TileGlobalRefs ?l). BareID g = 0"
    by (simp add: BareID_take_bit take_bit_eq_mask mask_eq_exp_minus_1)
  from zero_bare_ID_is_nil_tile [of ?l "[]"] z
  have "decodeTileDefs ?l [] =
        (?l\<lparr>TileGlobalRefs := [],
           TileDefs := TileDefs ?l @ replicate (length (TileGlobalRefs ?l)) nilTileDef\<rparr>, None)"
    by blast
  then show ?thesis by (simp add: zeroTileLayer_def numeral_3_eq_3)
qed

text \<open>
  Claim C9. When \<^verbatim>\<open>decodeTileDefs\<close> returns without error, the layer no longer holds
  its references (\<^verbatim>\<open>TileGlobalRefs\<close> is \<^verbatim>\<open>nil\<close>), and apart from that and from the
  tile definitions it has built the layer is the one it was given: width, height,
  name, properties and every other field are unchanged.
\<close>

theorem decodeTileDefs_releases_refs:
  assumes "decodeTileDefs l tss = (l', None)"
  shows "TileGlobalRefs l' = []
       \<and> l' = l\<lparr>TileGlobalRefs := [], TileDefs := TileDefs l'\<rparr>
       \<and> TileLayer.Width l' = TileLayer.Width l \<and> TileLayer.Height l' = TileLayer.Height l
       \<and> TileLayer.Name l' = TileLayer.Name l
       \<and> TileLayer.Properties l' = TileLayer.Properties l
       \<and> TileLayer.RawData l' = TileLayer.RawData l"
  using assms by (auto simp: decodeTileDefs_def split: prod.splits option.splits)

theorem decodeTileDefs_releases_refs_witness:
  "decodeTileDefs (zeroTileLayer\<lparr>TileLayer.Name := ''ground'', TileLayer.Width := 2,
        TileLayer.Height := 1, TileGlobalRefs := [0x80000000, 3]\<rparr>) [tilesetAt 1]
     = (zeroTileLayer\<lparr>TileLayer.Name := ''ground'', TileLayer.Width := 2,
          TileLayer.Height := 1, TileDefs := [nilTileDef, newTileDef 3 (tilesetAt 1)]\<rparr>, None)
   \<and> TileGlobalRefs (fst (decodeTileDefs (zeroTileLayer\<lparr>TileLayer.Name := ''ground'',
        TileLayer.Width := 2, TileLayer.Height := 1,
        TileGlobalRefs := [0x80000000, 3]\<rparr>) [tilesetAt 1])) = []
   \<and> TileLayer.Width (fst (decodeTileDefs (zeroTileLayer\<lparr>TileLayer.Name := ''ground'',
        TileLayer.Width := 2, TileLayer.Height := 1,
        TileGlobalRefs := [0x80000000, 3]\<rparr>) [tilesetAt 1])) = 2"
proof -
  let ?l = "zeroTileLayer\<lparr>TileLayer.Name := ''ground'', TileLayer.Width := 2,
        TileLayer.Height := 1, TileGlobalRefs := [0x80000000, 3]\<rparr>"
  let ?l' = "zeroTileLayer\<lparr>TileLayer.Name := ''ground'', TileLayer.Width := 2,
          TileLayer.Height := 1, TileDefs := [nilTileDef, newTileDef 3 (tilesetAt 1)]\<rparr>"
  have b: "BareID 0x80000000 = 0" "BareID 3 = 3"
    by (simp_all add: BareID_take_bit take_bit_eq_mask mask_eq_exp_minus_1)
  have r: "resolveTileset 3 [tilesetAt 1] = Inr (tilesetAt 1)"
    by (simp add: resolveTileset_def b tilesetAt_def)
  have h: "decodeTileDefs ?l [tilesetAt 1] = (?l', None)"
    by (simp add: decodeTileDefs_def b r zeroTileLayer_def)
  from decodeTileDefs_releases_refs [OF h] h show ?thesis by simp
qed

section \<open>Properties of the access to tile definitions\<close>

text \<open>
  Claim C5. The layer holds as many tile definitions as its declared size, the
  product \<^verbatim>\<open>Width*Height\<close> as the code computes it (in \<^verbatim>\<open>int\<close>). Then
  \<^verbatim>\<open>GetTileDefAtIndex\<close> returns the definition at the index exactly when the index
  is at least 0 and below the size, and the out-of-bounds error otherwise;
  \<^verbatim>\<open>GetTileDefAtPosition\<close> at a row and a column returns what
  \<^verbatim>\<open>GetTileDefAtIndex\<close> returns at the flat index \<^verbatim>\<open>row*Width + col\<close> (again in
  \<^verbatim>\<open>int\<close>) when that index is in range, and its own out-of-bounds error (which
  names the row and the column) otherwise; every error of the two functions wraps
  \<^verbatim>\<open>ErrTileDefOutOfBounds\<close>. For width 4 and height 3, index 11
  succeeds and is position (2, 3); index 12 and position (3, 0) fail.
\<close>

theorem GetTileDef_bounds:
  assumes "int (length (TileDefs l)) = sint (TileLayer.Width l * TileLayer.Height l)"
  shows "GetTileDefAtIndex l i =
           (if 0 \<le> sint i \<and> sint i < sint (TileLayer.Width l * TileLayer.Height l)
            then Returns (Inr (TileDefs l ! nat (sint i)))
            else Returns (Inl (Errorf ErrTileDefOutOfBounds (CtxIndex i))))
       \<and> GetTileDefAtPosition l row col =
           (if 0 \<le> sint (row * TileLayer.Width l + col)
               \<and> sint (row * TileLayer.Width l + col)
                   < sint (TileLayer.Width l * TileLayer.Height l)
            then GetTileDefAtIndex l (row * TileLayer.Width l + col)
            else Returns (Inl (Errorf ErrTileDefOutOfBounds (CtxRowCol row col))))
       \<and> (\<forall>e. GetTileDefAtIndex l i = Returns (Inl e)
                \<or> GetTileDefAtPosition l row col = Returns (Inl e) \<longrightarrow>
              errors_Is e ErrTileDefOutOfBounds)
       \<and> (TileLayer.Width l = 4 \<and> TileLayer.Height l = 3 \<longrightarrow>
             GetTileDefAtIndex l 11 = Returns (Inr (TileDefs l ! 11))
             \<and> GetTileDefAtPosition l 2 3 = GetTileDefAtIndex l 11
             \<and> GetTileDefAtIndex l 12 = Returns (Inl (Errorf ErrTileDefOutOfBounds (CtxIndex 12)))
             \<and> GetTileDefAtPosition l 3 0
                 = Returns (Inl (Errorf ErrTileDefOutOfBounds (CtxRowCol 3 0))))"
proof -
  let ?n = "sint (TileLayer.Width l * TileLayer.Height l)"
  have a: "GetTileDefAtIndex l i =
           (if 0 \<le> sint i \<and> sint i < ?n
            then Returns (Inr (TileDefs l ! nat (sint i)))
            else Returns (Inl (Errorf ErrTileDefOutOfBounds (CtxIndex i))))" for i
    using assms by (auto simp: GetTileDefAtIndex_def)
  have b: "GetTileDefAtPosition l row col =
           (if 0 \<le> sint (row * TileLayer.Width l + col)
               \<and> sint (row * TileLayer.Width l + col) < ?n
            then GetTileDefAtIndex l (row * TileLayer.Width l + col)
            else Returns (Inl (Errorf ErrTileDefOutOfBounds (CtxRowCol row col))))" for row col
    by (simp add: GetTileDefAtPosition_def a)
  have c: "TileLayer.Width l = 4 \<and> TileLayer.Height l = 3 \<longrightarrow>
             GetTileDefAtIndex l 11 = Returns (Inr (TileDefs l ! 11))
             \<and> GetTileDefAtPosition l 2 3 = GetTileDefAtIndex l 11
             \<and> GetTileDefAtIndex l 12 = Returns (Inl (Errorf ErrTileDefOutOfBounds (CtxIndex 12)))
             \<and> GetTileDefAtPosition l 3 0
                 = Returns (Inl (Errorf ErrTileDefOutOfBounds (CtxRowCol 3 0)))"
    by (simp add: b a)
  have d: "\<forall>e. GetTileDefAtIndex l i = Returns (Inl e)
                \<or> GetTileDefAtPosition l row col = Returns (Inl e) \<longrightarrow>
              errors_Is e ErrTileDefOutOfBounds"
    by (auto simp: GetTileDefAtIndex_def GetTileDefAtPosition_def
        split: if_splits outcome.splits sum.splits)
  from a b c d show ?thesis by blast
qed

theorem GetTileDef_bounds_witness:
  "int (length (TileDefs gridLayer))
     = sint (TileLayer.Width gridLayer * TileLayer.Height gridLayer)
   \<and> GetTileDefAtIndex gridLayer 11 = Returns (Inr (newTileDef 12 (tilesetAt 1)))
   \<and> GetTileDefAtPosition gridLayer 2 3 = Returns (Inr (newTileDef 12 (tilesetAt 1)))
   \<and> GetTileDefAtIndex gridLayer 12
        = Returns (Inl (Errorf ErrTileDefOutOfBounds (CtxIndex 12)))
   \<and> GetTileDefAtPosition gridLayer 3 0
        = Returns (Inl (Errorf ErrTileDefOutOfBounds (CtxRowCol 3 0)))
   \<and> GetTileDefAtIndex gridLayer (- 1)
        = Returns (Inl (Errorf ErrTileDefOutOfBounds (CtxIndex (- 1))))"
proof -
  have w: "TileLayer.Width gridLayer = 4" "TileLayer.Height gridLayer = 3"
    by (simp_all add: gridLayer_def)
  have h: "int (length (TileDefs gridLayer))
     = sint (TileLayer.Width gridLayer * TileLayer.Height gridLayer)"
    by (simp add: gridLayer_def)
  have n: "TileDefs gridLayer ! 11 = newTileDef 12 (tilesetAt 1)"
    by (simp add: gridLayer_def)
  from GetTileDef_bounds [OF h, of 11 2 3] w n
  have 1: "GetTileDefAtIndex gridLayer 11 = Returns (Inr (newTileDef 12 (tilesetAt 1)))"
    and 2: "GetTileDefAtPosition gridLayer 2 3 = Returns (Inr (newTileDef 12 (tilesetAt 1)))"
    and 3: "GetTileDefAtIndex gridLayer 12
        = Returns (Inl (Errorf ErrTileDefOutOfBounds (CtxIndex 12)))"
    and 4: "GetTileDefAtPosition gridLayer 3 0
        = Returns (Inl (Errorf ErrTileDefOutOfBounds (CtxRowCol 3 0)))"
    by simp_all
  from GetTileDef_bounds [OF h, of "- 1"] w
  have 5: "GetTileDefAtIndex gridLayer (- 1)
        = Returns (Inl (Errorf ErrTileDefOutOfBounds (CtxIndex (- 1))))"
    by simp
  from h 1 2 3 4 5 show ?thesis by blast
qed

lemma short_layer_decoded:
  "decodeLayerData noCodecs (csvLayer 2 2 ''1,2'')
     = Returns ((csvLayer 2 2 ''1,2'')\<lparr>TileGlobalRefs := [1, 2]\<rparr>, None)"
  by code_simp

lemma short_layer_resolved:
  "decodeTileDefs ((csvLayer 2 2 ''1,2'')\<lparr>TileGlobalRefs := [1, 2]\<rparr>) [tilesetAt 1]
     = (shortLayer, None)"
proof -
  have b: "BareID 1 = 1" "BareID 2 = 2"
    by (simp_all add: BareID_take_bit take_bit_eq_mask mask_eq_exp_minus_1)
  have r: "resolveTileset 1 [tilesetAt 1] = Inr (tilesetAt 1)"
    "resolveTileset 2 [tilesetAt 1] = Inr (tilesetAt 1)"
    by (simp_all add: resolveTileset_def b tilesetAt_def)
  show ?thesis
    by (simp add: decodeTileDefs_def b r shortLayer_def csvLayer_def zeroTileLayer_def)
qed

lemma inline_layer_decoded:
  "decodeLayerData noCodecs inlineLayer = Returns (inlineLayer, None)
   \<and> decodeTileDefs inlineLayer [tilesetAt 1] = (inlineLayer, None)"
  by (simp add: decodeLayerData_def decodeTileDefs_def inlineLayer_def zeroTileLayer_def)

text \<open>
  Claim C10. \<^verbatim>\<open>GetTileDefAtIndex\<close> compares the index with the declared size only.
  An index that is in the declared range but not below the number of tile
  definitions the layer holds makes the slice access panic (index out of range);
  no error is returned. When the layer holds exactly \<^verbatim>\<open>Width*Height\<close> definitions
  no index makes the function panic.
\<close>

theorem GetTileDefAtIndex_panics_short:
  "(0 \<le> sint i \<and> sint i < sint (TileLayer.Width l * TileLayer.Height l)
      \<and> int (length (TileDefs l)) \<le> sint i \<longrightarrow>
      GetTileDefAtIndex l i = Panics (IndexOutOfRange i (length (TileDefs l))))
   \<and> (int (length (TileDefs l)) = sint (TileLayer.Width l * TileLayer.Height l) \<longrightarrow>
        (\<forall>j p. GetTileDefAtIndex l j \<noteq> Panics p))"
  by (auto simp: GetTileDefAtIndex_def)

theorem GetTileDefAtIndex_panics_short_witness:
  "decodeLayerData noCodecs (csvLayer 2 2 ''1,2'')
     = Returns ((csvLayer 2 2 ''1,2'')\<lparr>TileGlobalRefs := [1, 2]\<rparr>, None)
   \<and> decodeTileDefs ((csvLayer 2 2 ''1,2'')\<lparr>TileGlobalRefs := [1, 2]\<rparr>) [tilesetAt 1]
     = (shortLayer, None)
   \<and> GetTileDefAtIndex shortLayer 1 = Returns (Inr (newTileDef 2 (tilesetAt 1)))
   \<and> GetTileDefAtIndex shortLayer 2 = Panics (IndexOutOfRange 2 2)
   \<and> GetTileDefAtIndex shortLayer 3 = Panics (IndexOutOfRange 3 2)
   \<and> GetTileDefAtIndex shortLayer 4
       = Returns (Inl (Errorf ErrTileDefOutOfBounds (CtxIndex 4)))
   \<and> GetTileDefAtIndex gridLayer 12
       = Returns (Inl (Errorf ErrTileDefOutOfBounds (CtxIndex 12)))
   \<and> decodeLayerData noCodecs inlineLayer = Returns (inlineLayer, None)
   \<and> decodeTileDefs inlineLayer [tilesetAt 1] = (inlineLayer, None)
   \<and> GetTileDefAtIndex inlineLayer 0 = Panics (IndexOutOfRange 0 0)"
proof -
  have w: "TileLayer.Width shortLayer = 2" "TileLayer.Height shortLayer = 2"
    "length (TileDefs shortLayer) = 2"
    by (simp_all add: shortLayer_def csvLayer_def)
  have 1: "GetTileDefAtIndex shortLayer 1 = Returns (Inr (newTileDef 2 (tilesetAt 1)))"
    by (simp add: GetTileDefAtIndex_def shortLayer_def csvLayer_def)
  have "0 \<le> sint (2 :: goint) \<and> sint (2 :: goint)
          < sint (TileLayer.Width shortLayer * TileLayer.Height shortLayer)
        \<and> int (length (TileDefs shortLayer)) \<le> sint (2 :: goint)"
    by (simp add: w)
  with GetTileDefAtIndex_panics_short [of 2 shortLayer]
  have 2: "GetTileDefAtIndex shortLayer 2 = Panics (IndexOutOfRange 2 2)"
    by (simp add: w)
  have "0 \<le> sint (3 :: goint) \<and> sint (3 :: goint)
          < sint (TileLayer.Width shortLayer * TileLayer.Height shortLayer)
        \<and> int (length (TileDefs shortLayer)) \<le> sint (3 :: goint)"
    by (simp add: w)
  with GetTileDefAtIndex_panics_short [of 3 shortLayer]
  have 3: "GetTileDefAtIndex shortLayer 3 = Panics (IndexOutOfRange 3 2)"
    by (simp add: w)
  have 4: "GetTileDefAtIndex shortLayer 4
       = Returns (Inl (Errorf ErrTileDefOutOfBounds (CtxIndex 4)))"
    by (simp add: GetTileDefAtIndex_def w)
  have g: "int (length (TileDefs gridLayer))
     = sint (TileLayer.Width gridLayer * TileLayer.Height gridLayer)"
    by (simp add: gridLayer_def)
  with GetTileDefAtIndex_panics_short [of 12 gridLayer]
  have "\<forall>p. GetTileDefAtIndex gridLayer 12 \<noteq> Panics p" by blast
  then have 5: "GetTileDefAtIndex gridLayer 12
       = Returns (Inl (Errorf ErrTileDefOutOfBounds (CtxIndex 12)))"
    by (simp add: GetTileDefAtIndex_def gridLayer_def)
  have iw: "TileLayer.Width inlineLayer = 2" "TileLayer.Height inlineLayer = 2"
    "length (TileDefs inlineLayer) = 0"
    by (simp_all add: inlineLayer_def zeroTileLayer_def)
  have "0 \<le> sint (0 :: goint) \<and> sint (0 :: goint)
          < sint (TileLayer.Width inlineLayer * TileLayer.Height inlineLayer)
        \<and> int (length (TileDefs inlineLayer)) \<le> sint (0 :: goint)"
    by (simp add: iw)
  with GetTileDefAtIndex_panics_short [of 0 inlineLayer]
  have 6: "GetTileDefAtIndex inlineLayer 0 = Panics (IndexOutOfRange 0 0)"
    by (simp add: iw)
  from short_layer_decoded short_layer_resolved inline_layer_decoded 1 2 3 4 5 6
  show ?thesis by blast
qed

section \<open>Properties of the external references\<close>

lemma Object_update_self:
  "ob\<lparr>Object.Name := Object.Name ob\<rparr> = ob"
  "ob\<lparr>Object.Type := Object.Type ob\<rparr> = ob"
  "ob\<lparr>Object.X := Object.X ob\<rparr> = ob"
  "ob\<lparr>Object.Y := Object.Y ob\<rparr> = ob"
  "ob\<lparr>Object.Width := Object.Width ob\<rparr> = ob"
  "ob\<lparr>Object.Height := Object.Height ob\<rparr> = ob"
  "ob\<lparr>Object.Rotation := Object.Rotation ob\<rparr> = ob"
  "ob\<lparr>Object.Visible := Object.Visible ob\<rparr> = ob"
  "ob\<lparr>Object.GlobalID := Object.GlobalID ob\<rparr> = ob"
  "ob\<lparr>Object.Properties := Object.Properties ob\<rparr> = ob"
  "ob\<lparr>Object.Image := Object.Image ob\<rparr> = ob"
  "ob\<lparr>Object.Polygon := Object.Polygon ob\<rparr> = ob"
  "ob\<lparr>Object.Polyline := Object.Polyline ob\<rparr> = ob"
  "ob\<lparr>Object.Text := Object.Text ob\<rparr> = ob"
  "ob\<lparr>Object.Ellipse := Object.Ellipse ob\<rparr> = ob"
  "ob\<lparr>Object.Point := Object.Point ob\<rparr> = ob"
  by simp_all

lemma mergeObject_self: "mergeObject tmp tmp = tmp"
  unfolding mergeObject_def
  apply (subst Let_def, simp only: Object_update_self if_cancel)
  apply (subst Let_def, simp only: Object_update_self if_cancel)
  apply (subst Let_def, simp only: Object_update_self if_cancel)
  apply (subst Let_def, simp only: Object_update_self if_cancel)
  apply (subst Let_def, simp only: Object_update_self if_cancel)
  apply (subst Let_def, simp only: Object_update_self if_cancel)
  apply (subst Let_def, simp only: Object_update_self if_cancel)
  apply (subst Let_def, simp only: Object_update_self if_cancel)
  apply (subst Let_def, simp only: Object_update_self if_cancel)
  apply (subst Let_def, simp only: Object_update_self if_cancel)
  apply (subst Let_def, simp only: Object_update_self if_cancel)
  apply (subst Let_def, simp only: Object_update_self if_cancel)
  apply (subst Let_def, simp only: Object_update_self if_cancel)
  apply (subst Let_def, simp only: Object_update_self if_cancel)
  apply (subst Let_def, simp only: Object_update_self if_cancel)
  apply (subst Let_def, simp only: Object_update_self if_cancel)
  done

lemma Object_UnmarshalXML_receiver:
  "fst (Object_UnmarshalXML ev g (Inr tmp) ob) = tmp"
  by (simp add: Object_UnmarshalXML_def mergeObject_self split: sum.splits)

lemma Tileset_UnmarshalXML_loaded:
  assumes "Tileset.Source tmp \<noteq> []"
    and "os_Open ev (filepath_Join ev (ResourcePath g) (Tileset.Source tmp)) = Inr f"
    and "xml_Decode_Tileset ev g f tmp = Inr tmp'"
  shows "Tileset_UnmarshalXML ev g (Inr tmp) t =
     (let t' = (if Tileset.FirstGlobalID tmp \<noteq> 0
                then tmp'\<lparr>Tileset.FirstGlobalID := Tileset.FirstGlobalID tmp\<rparr> else tmp')
      in if Tileset.Image t' \<noteq> None then (t', None)
         else case Tileset.Tiles t' of
                None \<Rightarrow> (t', Some (Errorf ErrDecodingTileset
                                (CtxString ''tileset or tiles missing source image'')))
              | Some tiles \<Rightarrow>
                  (case firstTileImage tiles of
                     None \<Rightarrow> (t', Some (Errorf ErrDecodingTileset
                                (CtxString ''tileset or tiles missing source image'')))
                   | Some img \<Rightarrow> (t'\<lparr>Tileset.Image := Some img\<rparr>, None)))"
  using assms
  by (simp add: Tileset_UnmarshalXML_def Tileset_HasImage_def Tileset_HasTiles_def
      split: option.splits)

lemma Tileset_UnmarshalXML_not_loaded:
  assumes "Tileset.Source tmp \<noteq> []"
    and "os_Open ev (filepath_Join ev (ResourcePath g) (Tileset.Source tmp)) = Inl e
         \<or> (\<exists>f e'. os_Open ev (filepath_Join ev (ResourcePath g) (Tileset.Source tmp)) = Inr f
                \<and> xml_Decode_Tileset ev g f tmp = Inl e')"
  shows "fst (Tileset_UnmarshalXML ev g (Inr tmp) t) = tmp"
  using assms by (auto simp: Tileset_UnmarshalXML_def)

text \<open>
  Claim C8. A tileset record has a source reference and a first global identifier
  that is not 0. Then the receiver holds that identifier after
  \<^verbatim>\<open>Tileset.UnmarshalXML\<close>, whatever the external document declares and whether
  or not the load succeeds; and when the document has been opened and decoded, the
  receiver is the decoded record with the first global identifier of the
  referencing record (and possibly the image of one of its tiles).
\<close>

theorem Tileset_UnmarshalXML_keeps_FirstGlobalID:
  assumes "Tileset.Source tmp \<noteq> []" and "Tileset.FirstGlobalID tmp \<noteq> 0"
  shows "Tileset.FirstGlobalID (fst (Tileset_UnmarshalXML ev g (Inr tmp) t))
           = Tileset.FirstGlobalID tmp
       \<and> (\<forall>f tmp'. os_Open ev (filepath_Join ev (ResourcePath g) (Tileset.Source tmp)) = Inr f
              \<and> xml_Decode_Tileset ev g f tmp = Inr tmp' \<longrightarrow>
              (fst (Tileset_UnmarshalXML ev g (Inr tmp) t))\<lparr>Tileset.Image := Tileset.Image tmp'\<rparr>
                = tmp'\<lparr>Tileset.FirstGlobalID := Tileset.FirstGlobalID tmp\<rparr>)"
proof -
  let ?R = "Tileset_UnmarshalXML ev g (Inr tmp) t"
  have loaded: "(fst ?R)\<lparr>Tileset.Image := Tileset.Image tmp'\<rparr>
                = tmp'\<lparr>Tileset.FirstGlobalID := Tileset.FirstGlobalID tmp\<rparr>"
    if "os_Open ev (filepath_Join ev (ResourcePath g) (Tileset.Source tmp)) = Inr f"
      and "xml_Decode_Tileset ev g f tmp = Inr tmp'" for f tmp'
    unfolding Tileset_UnmarshalXML_loaded [OF assms(1) that]
    using assms(2) by (simp add: Let_def split: option.splits)
  have a: "Tileset.FirstGlobalID (fst ?R) = Tileset.FirstGlobalID tmp"
  proof (cases "os_Open ev (filepath_Join ev (ResourcePath g) (Tileset.Source tmp))")
    case (Inl e)
    then show ?thesis using Tileset_UnmarshalXML_not_loaded [OF assms(1)] by simp
  next
    case (Inr f)
    show ?thesis
    proof (cases "xml_Decode_Tileset ev g f tmp")
      case (Inl e')
      with Inr show ?thesis using Tileset_UnmarshalXML_not_loaded [OF assms(1)] by simp
    next
      case (Inr tmp')
      have "Tileset.FirstGlobalID ((fst ?R)\<lparr>Tileset.Image := Tileset.Image tmp'\<rparr>)
              = Tileset.FirstGlobalID tmp"
        unfolding loaded [OF \<open>os_Open ev _ = Inr f\<close> Inr] by simp
      then show ?thesis by simp
    qed
  qed
  from a loaded show ?thesis by blast
qed

theorem Tileset_UnmarshalXML_keeps_FirstGlobalID_witness:
  "Tileset.Source (zeroTileset\<lparr>Tileset.FirstGlobalID := 5, Tileset.Source := ''base.tsx''\<rparr>) \<noteq> []
   \<and> Tileset.FirstGlobalID
        (zeroTileset\<lparr>Tileset.FirstGlobalID := 5, Tileset.Source := ''base.tsx''\<rparr>) \<noteq> 0
   \<and> exampleDecodeTileset \<lparr>ResourcePath = ''maps''\<rparr> ''base tileset'' zeroTileset
        = Inr (zeroTileset\<lparr>Tileset.FirstGlobalID := 1, Tileset.Name := ''base'',
                 Tileset.Image := Some numbersPng\<rparr>)
   \<and> Tileset_UnmarshalXML exampleEnv \<lparr>ResourcePath = ''maps''\<rparr>
        (Inr (zeroTileset\<lparr>Tileset.FirstGlobalID := 5, Tileset.Source := ''base.tsx''\<rparr>))
        zeroTileset
      = (zeroTileset\<lparr>Tileset.FirstGlobalID := 5, Tileset.Source := ''base.tsx'',
           Tileset.Name := ''base'', Tileset.Image := Some numbersPng\<rparr>, None)
   \<and> Tileset.FirstGlobalID (fst (Tileset_UnmarshalXML exampleEnv \<lparr>ResourcePath = ''maps''\<rparr>
        (Inr (zeroTileset\<lparr>Tileset.FirstGlobalID := 5, Tileset.Source := ''base.tsx''\<rparr>))
        zeroTileset)) = 5"
proof -
  let ?tmp = "zeroTileset\<lparr>Tileset.FirstGlobalID := 5, Tileset.Source := ''base.tsx''\<rparr>"
  let ?g = "\<lparr>ResourcePath = ''maps''\<rparr>"
  have s: "Tileset.Source ?tmp \<noteq> []" and n: "Tileset.FirstGlobalID ?tmp \<noteq> 0"
    by simp_all
  have d: "exampleDecodeTileset ?g ''base tileset'' zeroTileset
        = Inr (zeroTileset\<lparr>Tileset.FirstGlobalID := 1, Tileset.Name := ''base'',
                 Tileset.Image := Some numbersPng\<rparr>)"
    by (simp add: exampleDecodeTileset_def leafDecodeTileset_def)
  have op: "os_Open exampleEnv (filepath_Join exampleEnv (ResourcePath ?g) (Tileset.Source ?tmp))
          = Inr ''base tileset''"
    by (simp add: exampleEnv_def joinClean_def exampleOpen_def)
  have dc: "xml_Decode_Tileset exampleEnv ?g ''base tileset'' ?tmp
          = Inr (?tmp\<lparr>Tileset.FirstGlobalID := 1, Tileset.Name := ''base'',
                 Tileset.Image := Some numbersPng\<rparr>)"
    by (simp add: exampleEnv_def exampleDecodeTileset_def leafDecodeTileset_def)
  have r: "Tileset_UnmarshalXML exampleEnv ?g (Inr ?tmp) zeroTileset
        = (?tmp\<lparr>Tileset.Name := ''base'', Tileset.Image := Some numbersPng\<rparr>, None)"
    unfolding Tileset_UnmarshalXML_loaded [OF s op dc] by simp
  from Tileset_UnmarshalXML_keeps_FirstGlobalID [OF s n, of exampleEnv ?g zeroTileset]
  have k: "Tileset.FirstGlobalID (fst (Tileset_UnmarshalXML exampleEnv ?g (Inr ?tmp) zeroTileset))
             = 5"
    by simp
  from s n d r k show ?thesis by blast

qed










text \<open>
  Claim C2. The claim asks that a field left at its default on an object with a
  template reference holds the value the template declares after the merge. The
  code does not do that: \<^verbatim>\<open>Object.UnmarshalXML\<close> decodes the template and then
  assigns from \<^verbatim>\<open>tmp\<close>, the record of the object itself, so the receiver is that
  record unchanged (\<open>Object_UnmarshalXML_receiver\<close>). Here the template declares
  the name \<^verbatim>\<open>Default\<close> and the object has no name: its name is empty after the
  call. An object named \<^verbatim>\<open>Custom\<close> keeps its name, as the claim says.
\<close>

theorem Object_UnmarshalXML_ignores_template:
  "xml_Decode_Template exampleEnv \<lparr>ResourcePath = ''maps''\<rparr> ''door template''
     = Inr \<lparr>Template.TileSet = None,
            Template.Object = Some (zeroObject\<lparr>Object.Name := ''Default'',
                                       Object.Type := ''door'', Object.Visible := True\<rparr>)\<rparr>
   \<and> Object.Name doorRef = []
   \<and> Object_UnmarshalXML exampleEnv \<lparr>ResourcePath = ''maps''\<rparr> (Inr doorRef) zeroObject
     = (doorRef, None)
   \<and> Object.Name (fst (Object_UnmarshalXML exampleEnv \<lparr>ResourcePath = ''maps''\<rparr>
        (Inr doorRef) zeroObject)) = []
   \<and> Object_UnmarshalXML exampleEnv \<lparr>ResourcePath = ''maps''\<rparr>
        (Inr (doorRef\<lparr>Object.Name := ''Custom''\<rparr>)) zeroObject
     = (doorRef\<lparr>Object.Name := ''Custom''\<rparr>, None)"
proof -
  have 1: "xml_Decode_Template exampleEnv \<lparr>ResourcePath = ''maps''\<rparr> ''door template''
     = Inr \<lparr>Template.TileSet = None,
            Template.Object = Some (zeroObject\<lparr>Object.Name := ''Default'',
                                       Object.Type := ''door'', Object.Visible := True\<rparr>)\<rparr>"
    by (simp add: exampleEnv_def exampleDecodeTemplate_def leafDecodeTemplate_def)
  have 2: "Object.Name doorRef = []" by (simp add: doorRef_def zeroObject_def)
  have 3: "Object_UnmarshalXML exampleEnv \<lparr>ResourcePath = ''maps''\<rparr> (Inr doorRef) zeroObject
     = (doorRef, None)"
    by (simp add: Object_UnmarshalXML_def mergeObject_self exampleEnv_def joinClean_def
        exampleOpen_def exampleDecodeTemplate_def leafDecodeTemplate_def doorRef_def)
  have 4: "Object_UnmarshalXML exampleEnv \<lparr>ResourcePath = ''maps''\<rparr>
        (Inr (doorRef\<lparr>Object.Name := ''Custom''\<rparr>)) zeroObject
     = (doorRef\<lparr>Object.Name := ''Custom''\<rparr>, None)"
    by (simp add: Object_UnmarshalXML_def mergeObject_self exampleEnv_def joinClean_def
        exampleOpen_def exampleDecodeTemplate_def leafDecodeTemplate_def doorRef_def)
  from 1 2 3 4 show ?thesis by simp
qed

section \<open>Properties of the decoding of a text payload\<close>

text \<open>
  The loop over the pieces appends the value of every piece up to the first one
  that does not parse, and returns the error of that piece. The parser accepts
  exactly the non-empty strings of decimal digits that denote a number of at most
  32 bits, and returns that number.
\<close>

lemma decodeCSV_result:
  "decodeCSV toks refs =
     (refs @ map (\<lambda>tok. ucast (projr (strconv_ParseUint (strings_TrimSpace tok))))
               (takeWhile (\<lambda>tok. \<not> isl (strconv_ParseUint (strings_TrimSpace tok))) toks),
      case dropWhile (\<lambda>tok. \<not> isl (strconv_ParseUint (strings_TrimSpace tok))) toks of
        [] \<Rightarrow> None
      | tok # rest \<Rightarrow> Some (projl (strconv_ParseUint (strings_TrimSpace tok))))"
proof (induction toks arbitrary: refs)
  case Nil
  then show ?case by simp
next
  case (Cons tok toks)
  show ?case
  proof (cases "strconv_ParseUint (strings_TrimSpace tok)")
    case (Inl e)
    then show ?thesis by simp
  next
    case (Inr v)
    then show ?thesis by (simp add: Cons.IH)
  qed
qed

lemma parseUint_loop_not_digit:
  "\<exists>c \<in> set cs. \<not> isDigit c \<Longrightarrow> isl (parseUint_loop s0 cs n)"
  by (induction cs arbitrary: n) (auto simp: Let_def)

lemma strconv_ParseUint_not_numeric:
  "s = [] \<or> (\<exists>c \<in> set s. \<not> isDigit c) \<Longrightarrow> isl (strconv_ParseUint s)"
  by (auto simp: strconv_ParseUint_def intro: parseUint_loop_not_digit)

lemma decodeLayerData_csv:
  assumes "TileLayer.RawData l = Some raw" and "Encoding raw = ''csv''"
  shows "decodeLayerData cd l =
     Returns (case decodeCSV (strings_Split (RawBytes raw) (CHR '','')) (TileGlobalRefs l) of
                (refs, err) \<Rightarrow> (l\<lparr>TileGlobalRefs := refs\<rparr>, err))"
  using assms by (simp add: decodeLayerData_def)

lemma decodeLayerData_csv_result:
  assumes "TileLayer.RawData l = Some raw" and "Encoding raw = ''csv''"
  shows "decodeLayerData cd l =
     Returns (l\<lparr>TileGlobalRefs := TileGlobalRefs l
                @ map (\<lambda>tok. ucast (projr (strconv_ParseUint (strings_TrimSpace tok))))
                    (takeWhile (\<lambda>tok. \<not> isl (strconv_ParseUint (strings_TrimSpace tok)))
                       (strings_Split (RawBytes raw) (CHR '','')))\<rparr>,
              case dropWhile (\<lambda>tok. \<not> isl (strconv_ParseUint (strings_TrimSpace tok)))
                     (strings_Split (RawBytes raw) (CHR '','')) of
                [] \<Rightarrow> None
              | tok # rest \<Rightarrow> Some (projl (strconv_ParseUint (strings_TrimSpace tok))))"
  unfolding decodeLayerData_csv [OF assms] decodeCSV_result by simp

lemma foldl_decimal_mono:
  "m \<le> foldl (\<lambda>n c. n * 10 + (of_char c - 48 :: nat)) m cs"
proof (induction cs arbitrary: m)
  case Nil
  then show ?case by simp
next
  case (Cons c cs)
  have "m \<le> m * 10 + (of_char c - 48)" by simp
  also have "\<dots> \<le> foldl (\<lambda>n c. n * 10 + (of_char c - 48 :: nat)) (m * 10 + (of_char c - 48)) cs"
    by (rule Cons.IH)
  finally show ?case by simp
qed

lemma cutoff_value: "unat cutoff = 1844674407370955162"
  by (simp add: cutoff_def)

lemma maxVal_value: "unat maxVal = 4294967295"
  by (simp add: maxVal_def)

lemma parseUint_step:
  assumes "unat n \<le> 4294967295" and "isDigit c"
  shows "\<not> cutoff \<le> n"
    and "unat (n * 10 + of_nat (of_char c - 48)) = unat n * 10 + (of_char c - 48)"
    and "\<not> n * 10 + of_nat (of_char c - 48) < n * 10"
proof -
  have d: "(of_char c - 48 :: nat) \<le> 9" using assms(2) unfolding isDigit_def by linarith
  show "\<not> cutoff \<le> n"
    using assms(1) by (simp add: word_le_nat_alt cutoff_value)
  have m: "unat (n * 10) = unat n * 10"
    using assms(1) by (simp add: unat_word_ariths)
  have dd: "unat (of_nat (of_char c - 48) :: 64 word) = of_char c - 48"
    using d by (simp add: unat_of_nat)
  show a: "unat (n * 10 + of_nat (of_char c - 48)) = unat n * 10 + (of_char c - 48)"
    using assms(1) d by (simp add: unat_word_ariths m dd)
  show "\<not> n * 10 + of_nat (of_char c - 48) < n * 10"
    by (simp add: word_less_nat_alt a m)
qed

lemma parseUint_loop_decimal:
  "unat n \<le> 4294967295 \<Longrightarrow>
     parseUint_loop s0 cs n = Inr v \<longleftrightarrow>
       (\<forall>c \<in> set cs. isDigit c)
       \<and> foldl (\<lambda>n c. n * 10 + (of_char c - 48)) (unat n) cs \<le> 4294967295
       \<and> unat v = foldl (\<lambda>n c. n * 10 + (of_char c - 48)) (unat n) cs"
proof (induction cs arbitrary: n)
  case Nil
  then show ?case by (auto simp: word_unat_eq_iff)
next
  case (Cons c cs)
  let ?n1 = "n * 10 + of_nat (of_char c - 48) :: 64 word"
  let ?f = "\<lambda>n c. n * 10 + (of_char c - 48 :: nat)"
  show ?case
  proof (cases "isDigit c")
    case False
    then show ?thesis by simp
  next
    case True
    note st = parseUint_step [OF Cons.prems True]
    show ?thesis
    proof (cases "maxVal < ?n1")
      case big: True
      then have "4294967295 < unat ?n1" by (simp add: word_less_nat_alt maxVal_value)
      also have "unat ?n1 \<le> foldl ?f (unat ?n1) cs" by (rule foldl_decimal_mono)
      finally have "\<not> foldl ?f (unat n * 10 + (of_char c - 48)) cs \<le> 4294967295"
        by (simp add: st(2))
      with True st big show ?thesis by (simp add: Let_def)
    next
      case small: False
      then have b: "unat ?n1 \<le> 4294967295" by (simp add: word_less_nat_alt maxVal_value)
      from Cons.IH [OF b] True st small show ?thesis by (simp add: Let_def)
    qed
  qed
qed

lemma strconv_ParseUint_decimal:
  "strconv_ParseUint s = Inr v \<longleftrightarrow>
     s \<noteq> [] \<and> (\<forall>c \<in> set s. isDigit c) \<and> decimalValue s \<le> 4294967295
     \<and> unat v = decimalValue s"
  using parseUint_loop_decimal [of 0 s s v]
  by (simp add: strconv_ParseUint_def decimalValue_def)

lemma strconv_ParseUint_fails_iff:
  "isl (strconv_ParseUint s) \<longleftrightarrow>
     s = [] \<or> (\<exists>c \<in> set s. \<not> isDigit c) \<or> 4294967295 < decimalValue s"
proof -
  have "isl (strconv_ParseUint s) \<longleftrightarrow> \<not> (\<exists>v. strconv_ParseUint s = Inr v)"
    by (cases "strconv_ParseUint s") simp_all
  also have "\<dots> \<longleftrightarrow> \<not> (s \<noteq> [] \<and> (\<forall>c \<in> set s. isDigit c) \<and> decimalValue s \<le> 4294967295)"
  proof -
    have "(\<exists>v :: 64 word. unat v = decimalValue s)" if "decimalValue s \<le> 4294967295"
    proof
      show "unat (of_nat (decimalValue s) :: 64 word) = decimalValue s"
        using that by (simp add: unat_of_nat)
    qed
    then show ?thesis unfolding strconv_ParseUint_decimal by blast
  qed
  also have "\<dots> \<longleftrightarrow> s = [] \<or> (\<exists>c \<in> set s. \<not> isDigit c) \<or> 4294967295 < decimalValue s"
    by auto
  finally show ?thesis .
qed

lemma strconv_ParseUint_value:
  assumes "\<not> isl (strconv_ParseUint s)"
  shows "unat (ucast (projr (strconv_ParseUint s)) :: 32 word) = decimalValue s"
proof -
  from assms obtain v where v: "strconv_ParseUint s = Inr v"
    by (cases "strconv_ParseUint s") simp_all
  then have "decimalValue s \<le> 4294967295" and "unat v = decimalValue s"
    by (simp_all add: strconv_ParseUint_decimal)
  then have "unat (ucast v :: 32 word) = decimalValue s"
    by (simp add: unsigned_ucast_eq take_bit_nat_eq_self)
  with v show ?thesis by simp
qed


lemma decodeLayerData_csv_all:
  assumes "TileLayer.RawData l = Some raw" and "Encoding raw = ''csv''"
    and "\<forall>tok \<in> set (strings_Split (RawBytes raw) (CHR '','')).
              \<not> isl (strconv_ParseUint (strings_TrimSpace tok))"
  shows "decodeLayerData cd l =
              Returns
                (l\<lparr>TileGlobalRefs := TileGlobalRefs l
                      @ map (\<lambda>tok. ucast (projr (strconv_ParseUint (strings_TrimSpace tok))))
                          (strings_Split (RawBytes raw) (CHR '',''))\<rparr>, None)"
proof -
  let ?ok = "\<lambda>tok. \<not> isl (strconv_ParseUint (strings_TrimSpace tok))"
  let ?toks = "strings_Split (RawBytes raw) (CHR '','')"
  have t: "takeWhile ?ok ?toks = ?toks"
    using assms(3) by (rule takeWhile_eq_all_conv [THEN iffD2])
  have d: "dropWhile ?ok ?toks = []"
    using assms(3) by (rule dropWhile_eq_Nil_conv [THEN iffD2])
  show ?thesis
    unfolding decodeLayerData_csv_result [OF assms(1,2)] t d by (simp only: list.case)
qed

lemma decodeLayerData_csv_some:
  assumes "TileLayer.RawData l = Some raw" and "Encoding raw = ''csv''"
    and "\<exists>tok \<in> set (strings_Split (RawBytes raw) (CHR '','')).
              isl (strconv_ParseUint (strings_TrimSpace tok))"
  shows "\<exists>l' e. decodeLayerData cd l = Returns (l', Some e)
               \<and> TileLayer_UnmarshalXML cd (Inr l) l0
                   = Returns (l', Some (Errorf2 ErrDecodingTileLayerData e))"
proof -
  let ?ok = "\<lambda>tok. \<not> isl (strconv_ParseUint (strings_TrimSpace tok))"
  let ?toks = "strings_Split (RawBytes raw) (CHR '','')"
  from assms(3) have "dropWhile ?ok ?toks \<noteq> []" by (simp add: dropWhile_eq_Nil_conv)
  then obtain tok rest where d: "dropWhile ?ok ?toks = tok # rest"
    by (cases "dropWhile ?ok ?toks") auto
  obtain l' e where r: "decodeLayerData cd l = Returns (l', Some e)"
    unfolding decodeLayerData_csv_result [OF assms(1,2)] d by simp
  then have "TileLayer_UnmarshalXML cd (Inr l) l0
                   = Returns (l', Some (Errorf2 ErrDecodingTileLayerData e))"
    by (simp add: TileLayer_UnmarshalXML_def)
  with r show ?thesis by blast
qed

lemma decodeLayerData_csv_compression:
  assumes "TileLayer.RawData l = Some raw" and "Encoding raw = ''csv''"
  shows "decodeLayerData cd' (l\<lparr>RawData := Some (raw\<lparr>Compression := c\<rparr>)\<rparr>) =
           (case decodeLayerData cd l of
              Returns (l', e) \<Rightarrow> Returns (l'\<lparr>RawData := Some (raw\<lparr>Compression := c\<rparr>)\<rparr>, e)
            | Panics p \<Rightarrow> Panics p)"
proof -
  have r: "TileLayer.RawData (l\<lparr>RawData := Some (raw\<lparr>Compression := c\<rparr>)\<rparr>)
             = Some (raw\<lparr>Compression := c\<rparr>)"
    and en: "Encoding (raw\<lparr>Compression := c\<rparr>) = ''csv''"
    using assms by simp_all
  show ?thesis
    unfolding decodeLayerData_csv [OF r en] decodeLayerData_csv [OF assms]
    by (simp split: prod.splits)
qed

text \<open>
  Claim C4, as amended. The payload of a layer with the encoding \<^verbatim>\<open>csv\<close> is split at
  the commas and every piece, trimmed of white space, is parsed as a decimal
  unsigned integer of 32 bits: a piece fails to parse exactly when it is empty, has
  a byte that is not a decimal digit, or denotes a number above \<open>2 ^ 32 - 1\<close>, and
  otherwise gives the number it denotes. \<^verbatim>\<open>decodeLayerData\<close> returns no error
  exactly when every piece parses, and the layer has then received the values of
  all pieces in order. When a piece fails, the function returns the error of the
  first such piece, \<^verbatim>\<open>TileLayer.UnmarshalXML\<close> returns it wrapped in
  \<^verbatim>\<open>ErrDecodingTileLayerData\<close>, and the layer has received the values of the
  pieces before it: they are not taken back. Neither the compression tag nor the
  binary decoders have any influence.
\<close>

theorem decodeLayerData_csv_tokens:
  assumes "TileLayer.RawData l = Some raw" and "Encoding raw = ''csv''"
  shows "decodeLayerData cd l =
           Returns
             (l\<lparr>TileGlobalRefs := TileGlobalRefs l
                   @ map (\<lambda>tok. ucast (projr (strconv_ParseUint (strings_TrimSpace tok))))
                       (takeWhile (\<lambda>tok. \<not> isl (strconv_ParseUint (strings_TrimSpace tok)))
                          (strings_Split (RawBytes raw) (CHR '','')))\<rparr>,
              case dropWhile (\<lambda>tok. \<not> isl (strconv_ParseUint (strings_TrimSpace tok)))
                     (strings_Split (RawBytes raw) (CHR '','')) of
                [] \<Rightarrow> None
              | tok # rest \<Rightarrow> Some (projl (strconv_ParseUint (strings_TrimSpace tok))))
       \<and> ((\<forall>tok \<in> set (strings_Split (RawBytes raw) (CHR '','')).
              \<not> isl (strconv_ParseUint (strings_TrimSpace tok))) \<longrightarrow>
            decodeLayerData cd l =
              Returns
                (l\<lparr>TileGlobalRefs := TileGlobalRefs l
                      @ map (\<lambda>tok. ucast (projr (strconv_ParseUint (strings_TrimSpace tok))))
                          (strings_Split (RawBytes raw) (CHR '',''))\<rparr>, None))
       \<and> ((\<exists>tok \<in> set (strings_Split (RawBytes raw) (CHR '','')).
              isl (strconv_ParseUint (strings_TrimSpace tok))) \<longrightarrow>
            (\<exists>l' e. decodeLayerData cd l = Returns (l', Some e)
               \<and> TileLayer_UnmarshalXML cd (Inr l) l0
                   = Returns (l', Some (Errorf2 ErrDecodingTileLayerData e))))
       \<and> (\<forall>tok. isl (strconv_ParseUint (strings_TrimSpace tok)) \<longleftrightarrow>
                strings_TrimSpace tok = []
                \<or> (\<exists>c \<in> set (strings_TrimSpace tok). \<not> isDigit c)
                \<or> 4294967295 < decimalValue (strings_TrimSpace tok))
       \<and> (\<forall>tok. \<not> isl (strconv_ParseUint (strings_TrimSpace tok)) \<longrightarrow>
                unat (ucast (projr (strconv_ParseUint (strings_TrimSpace tok))) :: TileGlobalRef)
                  = decimalValue (strings_TrimSpace tok))
       \<and> decodeLayerData cd' (l\<lparr>RawData := Some (raw\<lparr>Compression := c\<rparr>)\<rparr>) =
           (case decodeLayerData cd l of
              Returns (l', e) \<Rightarrow> Returns (l'\<lparr>RawData := Some (raw\<lparr>Compression := c\<rparr>)\<rparr>, e)
            | Panics p \<Rightarrow> Panics p)"
proof (intro conjI impI allI)
  show "decodeLayerData cd l =
           Returns
             (l\<lparr>TileGlobalRefs := TileGlobalRefs l
                   @ map (\<lambda>tok. ucast (projr (strconv_ParseUint (strings_TrimSpace tok))))
                       (takeWhile (\<lambda>tok. \<not> isl (strconv_ParseUint (strings_TrimSpace tok)))
                          (strings_Split (RawBytes raw) (CHR '','')))\<rparr>,
              case dropWhile (\<lambda>tok. \<not> isl (strconv_ParseUint (strings_TrimSpace tok)))
                     (strings_Split (RawBytes raw) (CHR '','')) of
                [] \<Rightarrow> None
              | tok # rest \<Rightarrow> Some (projl (strconv_ParseUint (strings_TrimSpace tok))))"
    by (rule decodeLayerData_csv_result [OF assms])
next
  assume "\<forall>tok \<in> set (strings_Split (RawBytes raw) (CHR '','')).
              \<not> isl (strconv_ParseUint (strings_TrimSpace tok))"
  then show "decodeLayerData cd l =
              Returns
                (l\<lparr>TileGlobalRefs := TileGlobalRefs l
                      @ map (\<lambda>tok. ucast (projr (strconv_ParseUint (strings_TrimSpace tok))))
                          (strings_Split (RawBytes raw) (CHR '',''))\<rparr>, None)"
    by (rule decodeLayerData_csv_all [OF assms])
next
  assume "\<exists>tok \<in> set (strings_Split (RawBytes raw) (CHR '','')).
              isl (strconv_ParseUint (strings_TrimSpace tok))"
  then show "\<exists>l' e. decodeLayerData cd l = Returns (l', Some e)
               \<and> TileLayer_UnmarshalXML cd (Inr l) l0
                   = Returns (l', Some (Errorf2 ErrDecodingTileLayerData e))"
    by (rule decodeLayerData_csv_some [OF assms])
next
  fix tok
  show "isl (strconv_ParseUint (strings_TrimSpace tok)) \<longleftrightarrow>
                strings_TrimSpace tok = []
                \<or> (\<exists>c \<in> set (strings_TrimSpace tok). \<not> isDigit c)
                \<or> 4294967295 < decimalValue (strings_TrimSpace tok)"
    by (rule strconv_ParseUint_fails_iff)
next
  fix tok
  assume "\<not> isl (strconv_ParseUint (strings_TrimSpace tok))"
  then show "unat (ucast (projr (strconv_ParseUint (strings_TrimSpace tok))) :: TileGlobalRef)
                  = decimalValue (strings_TrimSpace tok)"
    by (rule strconv_ParseUint_value)
next
  show "decodeLayerData cd' (l\<lparr>RawData := Some (raw\<lparr>Compression := c\<rparr>)\<rparr>) =
           (case decodeLayerData cd l of
              Returns (l', e) \<Rightarrow> Returns (l'\<lparr>RawData := Some (raw\<lparr>Compression := c\<rparr>)\<rparr>, e)
            | Panics p \<Rightarrow> Panics p)"
    by (rule decodeLayerData_csv_compression [OF assms])
qed

theorem decodeLayerData_csv_tokens_witness:
  "TileLayer.RawData (csvLayer 2 2 ''1, 2,3758096389 ,4'')
     = Some \<lparr>Encoding = ''csv'', Compression = [], RawBytes = ''1, 2,3758096389 ,4''\<rparr>
   \<and> decodeLayerData noCodecs (csvLayer 2 2 ''1, 2,3758096389 ,4'')
     = Returns ((csvLayer 2 2 ''1, 2,3758096389 ,4'')\<lparr>TileGlobalRefs := [1, 2, 0xE0000005, 4]\<rparr>,
                None)
   \<and> decodeLayerData noCodecs
        ((csvLayer 2 2 ''1, 2,3758096389 ,4'')
           \<lparr>RawData := Some \<lparr>Encoding = ''csv'', Compression = ''zlib'',
                              RawBytes = ''1, 2,3758096389 ,4''\<rparr>\<rparr>)
     = Returns ((csvLayer 2 2 ''1, 2,3758096389 ,4'')
                  \<lparr>RawData := Some \<lparr>Encoding = ''csv'', Compression = ''zlib'',
                                     RawBytes = ''1, 2,3758096389 ,4''\<rparr>,
                   TileGlobalRefs := [1, 2, 0xE0000005, 4]\<rparr>, None)
   \<and> isl (strconv_ParseUint (strings_TrimSpace '' 1x''))
   \<and> (\<exists>l' e. decodeLayerData noCodecs (csvLayer 2 2 ''1,2,x,4'') = Returns (l', Some e)
          \<and> TileLayer_UnmarshalXML noCodecs (Inr (csvLayer 2 2 ''1,2,x,4'')) zeroTileLayer
              = Returns (l', Some (Errorf2 ErrDecodingTileLayerData e)))"
proof -
  let ?raw = "\<lparr>Encoding = ''csv'', Compression = [], RawBytes = ''1, 2,3758096389 ,4''\<rparr>"
  let ?l = "csvLayer 2 2 ''1, 2,3758096389 ,4''"
  have h1: "TileLayer.RawData ?l = Some ?raw" by (simp add: csvLayer_def)
  have h2: "Encoding ?raw = ''csv''" by simp
  note t = decodeLayerData_csv_tokens [OF h1 h2, of noCodecs _ noCodecs "''zlib''"]
  have ok: "\<forall>tok \<in> set (strings_Split (RawBytes ?raw) (CHR '','')).
              \<not> isl (strconv_ParseUint (strings_TrimSpace tok))"
    by code_simp
  have v: "TileGlobalRefs ?l
             @ map (\<lambda>tok. ucast (projr (strconv_ParseUint (strings_TrimSpace tok))))
                 (strings_Split (RawBytes ?raw) (CHR '',''))
           = [1, 2, 0xE0000005, 4]"
    by code_simp
  have a: "decodeLayerData noCodecs ?l = Returns (?l\<lparr>TileGlobalRefs := [1, 2, 0xE0000005, 4]\<rparr>, None)"
    using t [THEN conjunct2, THEN conjunct1, THEN mp, OF ok] unfolding v .
  have b: "decodeLayerData noCodecs (?l\<lparr>RawData := Some (?raw\<lparr>Compression := ''zlib''\<rparr>)\<rparr>)
     = Returns (?l\<lparr>RawData := Some (?raw\<lparr>Compression := ''zlib''\<rparr>),
                  TileGlobalRefs := [1, 2, 0xE0000005, 4]\<rparr>, None)"
    using t [THEN conjunct2, THEN conjunct2, THEN conjunct2, THEN conjunct2, THEN conjunct2]
    unfolding a by simp
  have s: "strings_TrimSpace '' 1x'' = ''1x''" by code_simp
  have c: "isl (strconv_ParseUint (strings_TrimSpace '' 1x''))"
    using t [THEN conjunct2, THEN conjunct2, THEN conjunct2, THEN conjunct1, THEN spec,
             of "'' 1x''"]
    unfolding s by (simp add: isDigit_def)
  let ?rawx = "\<lparr>Encoding = ''csv'', Compression = [], RawBytes = ''1,2,x,4''\<rparr>"
  have x1: "TileLayer.RawData (csvLayer 2 2 ''1,2,x,4'') = Some ?rawx"
    by (simp add: csvLayer_def)
  have x2: "Encoding ?rawx = ''csv''" by simp
  have bad: "\<exists>tok \<in> set (strings_Split (RawBytes ?rawx) (CHR '','')).
               isl (strconv_ParseUint (strings_TrimSpace tok))"
    by code_simp
  have d: "\<exists>l' e. decodeLayerData noCodecs (csvLayer 2 2 ''1,2,x,4'') = Returns (l', Some e)
          \<and> TileLayer_UnmarshalXML noCodecs (Inr (csvLayer 2 2 ''1,2,x,4'')) zeroTileLayer
              = Returns (l', Some (Errorf2 ErrDecodingTileLayerData e))"
    using decodeLayerData_csv_tokens [OF x1 x2, of noCodecs zeroTileLayer,
        THEN conjunct2, THEN conjunct2, THEN conjunct1, THEN mp, OF bad] .
  from b have b': "decodeLayerData noCodecs
        ((csvLayer 2 2 ''1, 2,3758096389 ,4'')
           \<lparr>RawData := Some \<lparr>Encoding = ''csv'', Compression = ''zlib'',
                              RawBytes = ''1, 2,3758096389 ,4''\<rparr>\<rparr>)
     = Returns ((csvLayer 2 2 ''1, 2,3758096389 ,4'')
                  \<lparr>RawData := Some \<lparr>Encoding = ''csv'', Compression = ''zlib'',
                                     RawBytes = ''1, 2,3758096389 ,4''\<rparr>,
                   TileGlobalRefs := [1, 2, 0xE0000005, 4]\<rparr>, None)"
    by simp
  from h1 a b' c d show ?thesis by (intro conjI)
qed

text \<open>
  The claim as stated fails in its last part: after the failure on the third piece
  the layer, which held no reference before, holds the first two.
\<close>

theorem decodeLayerData_csv_tokens_counterexample:
  "TileGlobalRefs (csvLayer 2 2 ''1,2,x,4'') = []
   \<and> decodeLayerData noCodecs (csvLayer 2 2 ''1,2,x,4'')
     = Returns ((csvLayer 2 2 ''1,2,x,4'')\<lparr>TileGlobalRefs := [1, 2]\<rparr>,
                Some (NumError ''ParseUint'' ''x'' ErrSyntax))
   \<and> TileLayer_UnmarshalXML noCodecs (Inr (csvLayer 2 2 ''1,2,x,4'')) zeroTileLayer
     = Returns ((csvLayer 2 2 ''1,2,x,4'')\<lparr>TileGlobalRefs := [1, 2]\<rparr>,
                Some (Errorf2 ErrDecodingTileLayerData (NumError ''ParseUint'' ''x'' ErrSyntax)))"
  by code_simp

section \<open>Further properties\<close>

lemma flag_bits:
  "IsFlippedHorizontally g = bit g 31"
  "IsFlippedVertically g = bit g 30"
  "IsFlippedDiagonally g = bit g 29"
proof -
  have h: "TileFlippedHorizontally = 2 ^ 31" by (simp add: TileFlippedHorizontally_def)
  have v: "TileFlippedVertically = 2 ^ 30" by (simp add: TileFlippedVertically_def)
  have d: "TileFlippedDiagonally = 2 ^ 29" by (simp add: TileFlippedDiagonally_def)
  show "IsFlippedHorizontally g = bit g 31"
    unfolding IsFlippedHorizontally_def h by (simp only: and_exp_eq_0_iff_not_bit not_not)
  show "IsFlippedVertically g = bit g 30"
    unfolding IsFlippedVertically_def v by (simp only: and_exp_eq_0_iff_not_bit not_not)
  show "IsFlippedDiagonally g = bit g 29"
    unfolding IsFlippedDiagonally_def d by (simp only: and_exp_eq_0_iff_not_bit not_not)
qed

text \<open>
  A tile definition built from a global identifier that has the horizontal flip
  bit and no other flag reports the horizontal flip only, and its local identifier
  is computed from the identifier without the flag.
\<close>

theorem newTileDef_flags:
  assumes "n < 2 ^ 29"
  shows "TileDef.HorizontallyFlipped (newTileDef (TileFlippedHorizontally OR n) ts)
       \<and> \<not> TileDef.VerticallyFlipped (newTileDef (TileFlippedHorizontally OR n) ts)
       \<and> \<not> TileDef.DiagonallyFlipped (newTileDef (TileFlippedHorizontally OR n) ts)
       \<and> TileDef.ID (newTileDef (TileFlippedHorizontally OR n) ts)
           = n - Tileset.FirstGlobalID ts
       \<and> TileDef.GlobalID (newTileDef (TileFlippedHorizontally OR n) ts)
           = (TileFlippedHorizontally OR n)
       \<and> TileDef.TileSet (newTileDef (TileFlippedHorizontally OR n) ts) = Some ts
       \<and> \<not> TileDef.Nil' (newTileDef (TileFlippedHorizontally OR n) ts)"
proof -
  have n: "take_bit 29 n = n" using assms by (rule take_bit_small)
  have b: "BareID (TileFlippedHorizontally OR n) = n"
    by (simp add: BareID_take_bit flag_take_bit n)
  have nb: "bit n k \<longleftrightarrow> k < 29 \<and> bit n k" for k
    using bit_take_bit_iff [of 29 n k] by (simp only: n)
  have hb: "bit TileFlippedHorizontally k \<longleftrightarrow> k = 31" for k
  proof -
    have e: "TileFlippedHorizontally = 2 ^ 31" by (simp add: TileFlippedHorizontally_def)
    show ?thesis unfolding e by (simp only: bit_exp_iff) auto
  qed
  have f: "IsFlippedHorizontally (TileFlippedHorizontally OR n)"
    "\<not> IsFlippedVertically (TileFlippedHorizontally OR n)"
    "\<not> IsFlippedDiagonally (TileFlippedHorizontally OR n)"
    using nb [of 30] nb [of 29] by (simp_all add: flag_bits bit_or_iff hb)
  show ?thesis
    by (simp add: newTileDef_def Let_def f b GlobalID_TileID_def)
qed

theorem newTileDef_flags_witness:
  "(5 :: 32 word) < 2 ^ 29
   \<and> newTileDef 0x80000005 (tilesetAt 1)
      = \<lparr>Nil' = False, ID = 4, GlobalID = 0x80000005, TileSet = Some (tilesetAt 1),
         Tile = None, HorizontallyFlipped = True, VerticallyFlipped = False,
         DiagonallyFlipped = False\<rparr>"
proof -
  have h: "(5 :: 32 word) < 2 ^ 29" by simp
  have g: "TileFlippedHorizontally OR 5 = 0x80000005"
    by (simp add: TileFlippedHorizontally_def)
  have t: "TileDef.Tile (newTileDef 0x80000005 (tilesetAt 1)) = None"
    by (simp add: newTileDef_def Let_def Tileset_HasTiles_def tilesetAt_def zeroTileset_def)
  have f: "Tileset.FirstGlobalID (tilesetAt 1) = 1" by (simp add: tilesetAt_def)
  from newTileDef_flags [OF h, of "tilesetAt 1"] t
  have "newTileDef 0x80000005 (tilesetAt 1)
      = \<lparr>Nil' = False, ID = 4, GlobalID = 0x80000005, TileSet = Some (tilesetAt 1),
         Tile = None, HorizontallyFlipped = True, VerticallyFlipped = False,
         DiagonallyFlipped = False\<rparr>"
    unfolding g f by (cases "newTileDef 0x80000005 (tilesetAt 1)") simp
  with h show ?thesis by simp
qed

text \<open>
  The tile definitions of a successful decode follow the references one to one and
  in their order (the order of the payload, row by row).
\<close>

theorem decodeTileDefs_keeps_order:
  assumes "decodeTileDefs l tss = (l', None)"
  shows "TileDefs l' = TileDefs l
           @ map (\<lambda>g. if BareID g = 0 then nilTileDef
                       else case resolveTileset g tss of
                              Inl e \<Rightarrow> nilTileDef
                            | Inr ts \<Rightarrow> newTileDef g ts) (TileGlobalRefs l)
       \<and> length (TileDefs l') = length (TileDefs l) + length (TileGlobalRefs l)"
proof -
  obtain defs where d: "decodeTileDefs_loop (TileGlobalRefs l) tss (TileDefs l) = (defs, None)"
    and l': "l' = l\<lparr>TileGlobalRefs := [], TileDefs := defs\<rparr>"
    using assms by (auto simp: decodeTileDefs_def split: prod.splits option.splits)
  from decodeTileDefs_loop_None [OF d] l' show ?thesis by simp
qed

theorem decodeTileDefs_keeps_order_witness:
  "decodeTileDefs ((csvLayer 2 2 ''1,2'')\<lparr>TileGlobalRefs := [1, 2]\<rparr>) [tilesetAt 1]
     = (shortLayer, None)
   \<and> TileDefs shortLayer = [newTileDef 1 (tilesetAt 1), newTileDef 2 (tilesetAt 1)]
   \<and> length (TileDefs shortLayer) = 2"
proof -
  have t: "TileDefs shortLayer = [newTileDef 1 (tilesetAt 1), newTileDef 2 (tilesetAt 1)]"
    by (simp add: shortLayer_def)
  from decodeTileDefs_keeps_order [OF short_layer_resolved]
  have "length (TileDefs shortLayer) = 2" by (simp add: csvLayer_def zeroTileLayer_def)
  with short_layer_resolved t show ?thesis by simp
qed

lemma decodeTileDefs_loop_error_iff:
  "snd (decodeTileDefs_loop gs tss defs) \<noteq> None
     \<longleftrightarrow> (\<exists>g \<in> set gs. BareID g \<noteq> 0 \<and> isl (resolveTileset g tss))"
proof (induction gs arbitrary: defs)
  case Nil
  then show ?case by simp
next
  case (Cons g gs)
  show ?case
  proof (cases "BareID g = 0")
    case True
    with Cons.IH [of "defs @ [nilTileDef]"] show ?thesis by simp
  next
    case False
    show ?thesis
    proof (cases "resolveTileset g tss")
      case (Inl e)
      with False show ?thesis by simp
    next
      case (Inr ts)
      with False Cons.IH [of "defs @ [newTileDef g ts]"] show ?thesis by simp
    qed
  qed
qed

text \<open>
  \<^verbatim>\<open>decodeTileDefs\<close> returns an error exactly when some reference with a bare
  identifier other than 0 has no tileset; the definitions built before that
  reference stay in the layer and the references are kept.
\<close>

theorem decodeTileDefs_error_iff:
  "snd (decodeTileDefs l tss) \<noteq> None
     \<longleftrightarrow> (\<exists>g \<in> set (TileGlobalRefs l). BareID g \<noteq> 0 \<and> isl (resolveTileset g tss))"
proof -
  have "snd (decodeTileDefs l tss) = snd (decodeTileDefs_loop (TileGlobalRefs l) tss (TileDefs l))"
    by (simp add: decodeTileDefs_def split: prod.splits option.splits)
  then show ?thesis by (simp only: decodeTileDefs_loop_error_iff)
qed

theorem decodeTileDefs_error_iff_witness:
  "decodeTileDefs (zeroTileLayer\<lparr>TileGlobalRefs := [12, 0, 3]\<rparr>) [tilesetAt 10]
     = (zeroTileLayer\<lparr>TileGlobalRefs := [12, 0, 3],
          TileDefs := [newTileDef 12 (tilesetAt 10), nilTileDef]\<rparr>,
        Some (Errorf ErrNoSuitableTileset (CtxGlobalID 3)))"
proof -
  let ?l = "zeroTileLayer\<lparr>TileGlobalRefs := [12, 0, 3]\<rparr>"
  have b: "BareID 12 = 12" "BareID 0 = 0" "BareID 3 = 3"
    by (simp_all add: BareID_take_bit take_bit_eq_mask mask_eq_exp_minus_1)
  have r: "resolveTileset 12 [tilesetAt 10] = Inr (tilesetAt 10)"
    "resolveTileset 3 [tilesetAt 10] = Inl (Errorf ErrNoSuitableTileset (CtxGlobalID 3))"
    by (simp_all add: resolveTileset_def b tilesetAt_def)
  have "\<exists>g \<in> set (TileGlobalRefs ?l). BareID g \<noteq> 0 \<and> isl (resolveTileset g [tilesetAt 10])"
    by (simp add: b r zeroTileLayer_def)
  then have "snd (decodeTileDefs ?l [tilesetAt 10]) \<noteq> None"
    by (simp only: decodeTileDefs_error_iff)
  moreover have "decodeTileDefs ?l [tilesetAt 10]
     = (?l\<lparr>TileDefs := [newTileDef 12 (tilesetAt 10), nilTileDef]\<rparr>,
        Some (Errorf ErrNoSuitableTileset (CtxGlobalID 3)))"
    by (simp add: decodeTileDefs_def b r zeroTileLayer_def)
  ultimately show ?thesis by simp
qed

lemma sint_of_nat_small:
  assumes "int n < 2 ^ 63"
  shows "sint (of_nat n :: 64 word) = int n"
proof -
  have "sint (of_nat n :: 64 word) = signed_take_bit 63 (int n)"
    by (simp add: signed_of_nat)
  also have "\<dots> = int n"
    using assms by (intro signed_take_bit_int_eq_self) simp_all
  finally show ?thesis .
qed

text \<open>
  \<^verbatim>\<open>GetTileDefAtIndex\<close> panics at no index exactly when the layer holds at least
  \<^verbatim>\<open>Width*Height\<close> tile definitions.
\<close>

theorem GetTileDefAtIndex_total_iff:
  "(\<forall>i p. GetTileDefAtIndex l i \<noteq> Panics p)
     \<longleftrightarrow> sint (TileLayer.Width l * TileLayer.Height l) \<le> int (length (TileDefs l))"
proof
  assume "sint (TileLayer.Width l * TileLayer.Height l) \<le> int (length (TileDefs l))"
  then show "\<forall>i p. GetTileDefAtIndex l i \<noteq> Panics p"
    by (auto simp: GetTileDefAtIndex_def)
next
  assume total: "\<forall>i p. GetTileDefAtIndex l i \<noteq> Panics p"
  show "sint (TileLayer.Width l * TileLayer.Height l) \<le> int (length (TileDefs l))"
  proof (rule ccontr)
    assume "\<not> sint (TileLayer.Width l * TileLayer.Height l) \<le> int (length (TileDefs l))"
    then have lt: "int (length (TileDefs l)) < sint (TileLayer.Width l * TileLayer.Height l)"
      by simp
    have "sint (TileLayer.Width l * TileLayer.Height l) < 2 ^ 63"
      using sint_lt [of "TileLayer.Width l * TileLayer.Height l"] by simp
    with lt have "int (length (TileDefs l)) < 2 ^ 63" by linarith
    then have s: "sint (of_nat (length (TileDefs l)) :: 64 word) = int (length (TileDefs l))"
      by (rule sint_of_nat_small)
    have "GetTileDefAtIndex l (of_nat (length (TileDefs l)))
            = Panics (IndexOutOfRange (of_nat (length (TileDefs l))) (length (TileDefs l)))"
      using lt by (simp add: GetTileDefAtIndex_def s)
    with total show False by simp
  qed
qed

end
